theory Spec2Isabelle
  imports Complex_Main
begin

section \<open>Orthographic camera estimation\<close>

text \<open>
  The header \<^verbatim>\<open>include/eos/fitting/nonlinear_camera_estimation.hpp\<close> of the eos
  library defines two plain structs and one function,
  \<^verbatim>\<open>estimate_orthographic_camera\<close>. The function checks two assertions, sets up
  a six-entry parameter vector, wraps a cost functor into Eigen's numerical
  differentiation and Levenberg-Marquardt classes, lets Eigen minimise, and packs
  the solved vector into the result struct.

  Scalars. The source computes with \<^verbatim>\<open>float\<close> and \<^verbatim>\<open>double\<close>, which are the
  IEEE 754 formats binary32 and binary64 with rounding to nearest, ties to even.
  A value of either format is embedded as a real number, an infinity or NaN; an
  operation is the exact operation on the reals followed by the rounding of its
  format. The two zeros are one value (the function neither divides by a computed
  zero nor inspects a sign bit), and there is one NaN.

  Integers. \<^verbatim>\<open>width\<close> and \<^verbatim>\<open>height\<close> are C++ \<^verbatim>\<open>int\<close>; the function only
  converts them to \<^verbatim>\<open>float\<close> and hands them to the cost functor, no integer
  arithmetic is done on them, so they are embedded as \<^typ>\<open>int\<close>.
  \<^verbatim>\<open>std::vector::size()\<close> is a \<^typ>\<open>nat\<close>.
\<close>

subsection \<open>Floating-point values and rounding\<close>

datatype ieee = Finite real | PlusInfinity | MinusInfinity | NaN

type_synonym float = ieee
type_synonym double = ieee

text \<open>
  The binary exponent of a positive real: the \<open>e\<close> with \<open>2^e \<le> x < 2^(e+1)\<close>, found
  by halving a number that is at least 2 and doubling one that is below 1.
\<close>

function log2_up :: "real \<Rightarrow> int" where
  "log2_up x = (if x < 2 then 0 else 1 + log2_up (x / 2))"
  by pat_completeness auto
termination
proof (relation "measure (\<lambda>x. nat \<lfloor>x\<rfloor>)")
  show "wf (measure (\<lambda>x::real. nat \<lfloor>x\<rfloor>))" by simp
next
  fix x :: real
  assume "\<not> x < 2"
  then have "x / 2 < of_int \<lfloor>x\<rfloor>" and "1 \<le> \<lfloor>x\<rfloor>" by linarith+
  then have "\<lfloor>x / 2\<rfloor> < \<lfloor>x\<rfloor>" by (simp add: floor_less_iff)
  with \<open>1 \<le> \<lfloor>x\<rfloor>\<close> show "(x / 2, x) \<in> measure (\<lambda>x. nat \<lfloor>x\<rfloor>)" by simp
qed

function log2_down :: "real \<Rightarrow> int" where
  "log2_down x = (if x \<le> 0 \<or> 1 \<le> x then 0 else log2_down (2 * x) - 1)"
  by pat_completeness auto
termination
proof (relation "measure (\<lambda>x. nat \<lfloor>1 / x\<rfloor>)")
  show "wf (measure (\<lambda>x::real. nat \<lfloor>1 / x\<rfloor>))" by simp
next
  fix x :: real
  assume "\<not> (x \<le> 0 \<or> 1 \<le> x)"
  then have x: "0 < x" "x < 1" by simp_all
  define y where "y = 1 / x"
  from x have one: "1 < y" by (simp add: y_def)
  then have fl: "1 \<le> \<lfloor>y\<rfloor>" by linarith
  then have "(1::real) \<le> of_int \<lfloor>y\<rfloor>" by linarith
  moreover have "y < of_int \<lfloor>y\<rfloor> + 1" by linarith
  ultimately have "y / 2 < of_int \<lfloor>y\<rfloor>" by linarith
  then have "\<lfloor>y / 2\<rfloor> < \<lfloor>y\<rfloor>" by (simp add: floor_less_iff)
  moreover have "1 / (2 * x) = y / 2" by (simp add: y_def)
  ultimately have "\<lfloor>1 / (2 * x)\<rfloor> < \<lfloor>1 / x\<rfloor>" by (simp only: y_def)
  moreover from fl have "0 < \<lfloor>1 / x\<rfloor>" by (simp only: y_def)
  ultimately show "(2 * x, x) \<in> measure (\<lambda>x. nat \<lfloor>1 / x\<rfloor>)"
    by simp
qed

declare log2_up.simps [simp del] log2_down.simps [simp del]

definition ilog2 :: "real \<Rightarrow> int" where
  "ilog2 x = (if 1 \<le> x then log2_up x else log2_down x)"

text \<open>Rounding a non-negative real to the nearest integer, a tie to the even one.\<close>

definition round_half_even :: "real \<Rightarrow> int" where
  "round_half_even x =
     (let f = \<lfloor>x\<rfloor>; d = x - of_int f
      in if d < 1 / 2 then f else if 1 / 2 < d then f + 1
         else if even f then f else f + 1)"

text \<open>
  Rounding a positive real \<open>a\<close> to a format with \<open>p\<close> significand bits and least
  exponent \<open>emin\<close>: the spacing of the format's values around \<open>a\<close> is
  \<open>q = 2^(e - (p - 1))\<close>, with \<open>e\<close> the exponent of \<open>a\<close>, or \<open>emin\<close> for the subnormal
  numbers below \<open>2^emin\<close>; \<open>a\<close> goes to the nearest multiple of \<open>q\<close>.
\<close>

definition round_magnitude :: "nat \<Rightarrow> int \<Rightarrow> real \<Rightarrow> real" where
  "round_magnitude p emin a =
     (let e = max (ilog2 a) emin;
          q = 2 powi (e - (int p - 1))
      in of_int (round_half_even (a / q)) * q)"

text \<open>
  Rounding a real to the format: the sign is kept, and a magnitude that rounds to
  \<open>2^(emax+1)\<close> or more overflows to the infinity of that sign.
\<close>

definition round_to_format :: "nat \<Rightarrow> int \<Rightarrow> int \<Rightarrow> real \<Rightarrow> ieee" where
  "round_to_format p emin emax x =
     (if x = 0 then Finite 0
      else
        let y = round_magnitude p emin \<bar>x\<bar>
        in if 2 powi (emax + 1) \<le> y
             then (if x < 0 then MinusInfinity else PlusInfinity)
           else Finite (if x < 0 then - y else y))"

text \<open>binary32: 24 significand bits, exponents -126 to 127; binary64: 53, -1022 to 1023.\<close>

definition round32 :: "real \<Rightarrow> float" where
  "round32 = round_to_format 24 (- 126) 127"

definition round64 :: "real \<Rightarrow> double" where
  "round64 = round_to_format 53 (- 1022) 1023"

text \<open>A value is of a format when rounding to the format leaves it as it is.\<close>

definition is_binary32 :: "ieee \<Rightarrow> bool" where
  "is_binary32 v = (case v of Finite x \<Rightarrow> round32 x = Finite x | _ \<Rightarrow> True)"

definition is_binary64 :: "ieee \<Rightarrow> bool" where
  "is_binary64 v = (case v of Finite x \<Rightarrow> round64 x = Finite x | _ \<Rightarrow> True)"

subsection \<open>Floating-point operations\<close>

text \<open>
  Negation, and the comparisons \<^verbatim>\<open><\<close> and \<^verbatim>\<open><=\<close> (false whenever an operand is NaN).
\<close>

fun ieee_neg :: "ieee \<Rightarrow> ieee" where
  "ieee_neg (Finite x) = Finite (- x)"
| "ieee_neg PlusInfinity = MinusInfinity"
| "ieee_neg MinusInfinity = PlusInfinity"
| "ieee_neg NaN = NaN"

fun ieee_less :: "ieee \<Rightarrow> ieee \<Rightarrow> bool" where
  "ieee_less NaN v = False"
| "ieee_less u NaN = False"
| "ieee_less (Finite x) (Finite y) = (x < y)"
| "ieee_less (Finite x) PlusInfinity = True"
| "ieee_less (Finite x) MinusInfinity = False"
| "ieee_less PlusInfinity v = False"
| "ieee_less MinusInfinity (Finite y) = True"
| "ieee_less MinusInfinity PlusInfinity = True"
| "ieee_less MinusInfinity MinusInfinity = False"

fun ieee_less_eq :: "ieee \<Rightarrow> ieee \<Rightarrow> bool" where
  "ieee_less_eq NaN v = False"
| "ieee_less_eq u NaN = False"
| "ieee_less_eq (Finite x) (Finite y) = (x \<le> y)"
| "ieee_less_eq (Finite x) PlusInfinity = True"
| "ieee_less_eq (Finite x) MinusInfinity = False"
| "ieee_less_eq PlusInfinity (Finite y) = False"
| "ieee_less_eq PlusInfinity PlusInfinity = True"
| "ieee_less_eq PlusInfinity MinusInfinity = False"
| "ieee_less_eq MinusInfinity v = True"

text \<open>
  Multiplication in a format with rounding \<open>rnd\<close>: NaN is contagious, zero times
  an infinity is NaN, an infinity times a non-zero value is the infinity of the
  product's sign.
\<close>

fun ieee_mul :: "(real \<Rightarrow> ieee) \<Rightarrow> ieee \<Rightarrow> ieee \<Rightarrow> ieee" where
  "ieee_mul rnd NaN v = NaN"
| "ieee_mul rnd u NaN = NaN"
| "ieee_mul rnd (Finite x) (Finite y) = rnd (x * y)"
| "ieee_mul rnd (Finite x) PlusInfinity =
     (if x = 0 then NaN else if 0 < x then PlusInfinity else MinusInfinity)"
| "ieee_mul rnd (Finite x) MinusInfinity =
     (if x = 0 then NaN else if 0 < x then MinusInfinity else PlusInfinity)"
| "ieee_mul rnd PlusInfinity (Finite y) =
     (if y = 0 then NaN else if 0 < y then PlusInfinity else MinusInfinity)"
| "ieee_mul rnd MinusInfinity (Finite y) =
     (if y = 0 then NaN else if 0 < y then MinusInfinity else PlusInfinity)"
| "ieee_mul rnd PlusInfinity PlusInfinity = PlusInfinity"
| "ieee_mul rnd PlusInfinity MinusInfinity = MinusInfinity"
| "ieee_mul rnd MinusInfinity PlusInfinity = MinusInfinity"
| "ieee_mul rnd MinusInfinity MinusInfinity = PlusInfinity"

definition float_mul :: "float \<Rightarrow> float \<Rightarrow> float" where
  "float_mul = ieee_mul round32"

definition double_mul :: "double \<Rightarrow> double \<Rightarrow> double" where
  "double_mul = ieee_mul round64"

text \<open>
  Division in binary32. The function's only division has a divisor converted from
  an \<^verbatim>\<open>int\<close>, so a zero divisor is the positive zero: a non-zero number divided by
  it is the infinity of the number's sign, and zero divided by it is NaN.
\<close>

fun float_div :: "float \<Rightarrow> float \<Rightarrow> float" where
  "float_div NaN v = NaN"
| "float_div u NaN = NaN"
| "float_div (Finite x) (Finite y) =
     (if y = 0 then (if x = 0 then NaN else if 0 < x then PlusInfinity else MinusInfinity)
      else round32 (x / y))"
| "float_div (Finite x) PlusInfinity = Finite 0"
| "float_div (Finite x) MinusInfinity = Finite 0"
| "float_div PlusInfinity (Finite y) = (if 0 \<le> y then PlusInfinity else MinusInfinity)"
| "float_div MinusInfinity (Finite y) = (if 0 \<le> y then MinusInfinity else PlusInfinity)"
| "float_div PlusInfinity PlusInfinity = NaN"
| "float_div PlusInfinity MinusInfinity = NaN"
| "float_div MinusInfinity PlusInfinity = NaN"
| "float_div MinusInfinity MinusInfinity = NaN"

text \<open>
  The conversions: \<^verbatim>\<open>static_cast<float>\<close> of an \<^verbatim>\<open>int\<close>; \<^verbatim>\<open>static_cast<float>\<close>
  of a \<^verbatim>\<open>double\<close>, which is also the narrowing of a \<^verbatim>\<open>double\<close> that initialises a
  \<^verbatim>\<open>float\<close> member; and the widening of a \<^verbatim>\<open>float\<close> operand to \<^verbatim>\<open>double\<close>, which is
  exact.
\<close>

definition float_of_int :: "int \<Rightarrow> float" where
  "float_of_int i = round32 (real_of_int i)"

fun float_of_double :: "double \<Rightarrow> float" where
  "float_of_double (Finite x) = round32 x"
| "float_of_double PlusInfinity = PlusInfinity"
| "float_of_double MinusInfinity = MinusInfinity"
| "float_of_double NaN = NaN"

definition double_of_float :: "float \<Rightarrow> double" where
  "double_of_float v = v"

subsection \<open>Data\<close>

text \<open>\<^verbatim>\<open>cv::Vec2f\<close> and \<^verbatim>\<open>cv::Vec4f\<close>: fixed-size vectors of \<^verbatim>\<open>float\<close>.\<close>

type_synonym Vec2f = "float \<times> float"
type_synonym Vec4f = "float \<times> float \<times> float \<times> float"

text \<open>\<^verbatim>\<open>struct Frustum { float l, r, b, t; }\<close>\<close>

record Frustum =
  l :: float
  r :: float
  b :: float
  t :: float

text \<open>
  \<^verbatim>\<open>struct OrthographicRenderingParameters\<close>: \<^verbatim>\<open>r_x\<close> is the pitch, \<^verbatim>\<open>r_y\<close> the
  yaw, \<^verbatim>\<open>r_z\<close> the roll. The function's declared return type is spelled
  \<^verbatim>\<open>RenderingParameters\<close>; the return statement brace-initialises it with five
  scalars and a frustum, member by member in the order of this struct, which is
  the only such struct the header declares.
\<close>

record OrthographicRenderingParameters =
  r_x :: float
  r_y :: float
  r_z :: float
  t_x :: float
  t_y :: float
  frustum :: Frustum

text \<open>
  A failed \<^verbatim>\<open>assert\<close> aborts the process; it is an error value carrying the
  asserted expression. (The embedding is of a build in which assertions are
  active, that is, without \<^verbatim>\<open>NDEBUG\<close>.)
\<close>

datatype error = AssertionFailed string

subsection \<open>The collaborators the function configures\<close>

text \<open>
  \<^verbatim>\<open>detail::OrthographicParameterProjection cost_function(image_points, model_points, width, height)\<close>:
  the cost functor is constructed from the correspondences and the image size.
  Its class lives in the detail header; here only its construction matters.
\<close>

datatype OrthographicParameterProjection =
  OrthographicParameterProjection "Vec2f list" "Vec4f list" int int

text \<open>
  \<^verbatim>\<open>Eigen::NumericalDiff<F> cost_function_with_derivative(cost_function, 0.0001)\<close>:
  the wrapper that adds a finite-difference Jacobian to a functor; its second
  constructor argument is \<^verbatim>\<open>epsfcn\<close>, kept as the decimal constant the source
  writes.
\<close>

datatype 'f NumericalDiff = NumericalDiff 'f real

text \<open>\<^verbatim>\<open>Eigen::LevenbergMarquardt<F> lm(cost_function_with_derivative)\<close>\<close>

datatype 'f LevenbergMarquardt = LevenbergMarquardt 'f

text \<open>
  \<^verbatim>\<open>lm.minimize(parameters)\<close> is Eigen's: it overwrites the vector it is given
  and returns a status. In the embedding it is a parameter of the function, of
  the type below: from the solver object and the initial vector to the status
  and the vector's new contents. The vector is an \<^verbatim>\<open>Eigen::VectorXd\<close>, a vector of
  \<^verbatim>\<open>double\<close>. The status type is left open (\<^verbatim>\<open>auto info\<close> in the source).
\<close>

type_synonym 'info minimize =
  "OrthographicParameterProjection NumericalDiff LevenbergMarquardt
     \<Rightarrow> double list \<Rightarrow> 'info \<times> double list"

subsection \<open>The function\<close>

text \<open>
  \<^verbatim>\<open>Eigen::VectorXd\<close> is a list of \<^verbatim>\<open>double\<close>. \<^verbatim>\<open>setConstant(num_params, 0.0)\<close>
  resizes to \<^verbatim>\<open>num_params\<close> entries, all zero; \<^verbatim>\<open>parameters[5] = 110.0\<close> is a
  list update. Eigen's \<^verbatim>\<open>operator[]\<close> asserts that the index is below the size.
  In the program \<^verbatim>\<open>minimize\<close> never resizes the vector, so the reads after the
  solve are in range; since the solver is a parameter here, the check of the first
  read, \<^verbatim>\<open>parameters[5]\<close>, is written out (it covers the reads of entries 0 to 4).

  In \<^verbatim>\<open>-1.0f * aspect * parameters[5]\<close> the first product is of two \<^verbatim>\<open>float\<close>s;
  the second has a \<^verbatim>\<open>double\<close> operand, so the first product is widened and the
  second is taken in \<^verbatim>\<open>double\<close>; the \<^verbatim>\<open>double\<close> result then initialises a \<^verbatim>\<open>float\<close>
  member of the frustum.
\<close>

definition estimate_orthographic_camera ::
  "'info minimize \<Rightarrow> Vec2f list \<Rightarrow> Vec4f list \<Rightarrow> int \<Rightarrow> int
     \<Rightarrow> error + OrthographicRenderingParameters" where
  "estimate_orthographic_camera minimize image_points model_points width height =
     (if length image_points \<noteq> length model_points
        then Inl (AssertionFailed ''image_points.size() == model_points.size()'')
      else if \<not> 6 \<le> length image_points
        then Inl (AssertionFailed ''image_points.size() >= 6'')
      else
        let aspect = float_div (float_of_int width) (float_of_int height);
            num_params = 6;
            parameters = (replicate num_params (Finite 0.0))[5 := Finite 110.0];
            cost_function =
              OrthographicParameterProjection image_points model_points width height;
            cost_function_with_derivative = NumericalDiff cost_function 0.0001;
            lm = LevenbergMarquardt cost_function_with_derivative;
            (info, parameters) = minimize lm parameters
        in if \<not> 5 < length parameters
             then Inl (AssertionFailed ''index >= 0 && index < size()'')
           else
             let camera_frustum =
                   \<lparr>l = float_of_double
                          (double_mul (double_of_float (float_mul (Finite (- 1.0)) aspect))
                             (parameters ! 5)),
                    r = float_of_double
                          (double_mul (double_of_float (float_mul (Finite 1.0) aspect))
                             (parameters ! 5)),
                    b = float_of_double
                          (double_mul (double_of_float (Finite (- 1.0))) (parameters ! 5)),
                    t = float_of_double
                          (double_mul (double_of_float (Finite 1.0)) (parameters ! 5))\<rparr>
             in Inr \<lparr>r_x = float_of_double (parameters ! 0),
                     r_y = float_of_double (parameters ! 1),
                     r_z = float_of_double (parameters ! 2),
                     t_x = float_of_double (parameters ! 3),
                     t_y = float_of_double (parameters ! 4),
                     frustum = camera_frustum\<rparr>)"

text \<open>
  Names used in the statements below. \<open>aspect\<close> is the local variable of that name,
  \<open>solver_object\<close> the object \<^verbatim>\<open>lm\<close> the function builds, \<open>initial_parameters\<close> the
  vector it passes to \<^verbatim>\<open>minimize\<close>, \<open>solved\<close> the contents of \<^verbatim>\<open>parameters\<close> after the
  call, and \<open>result_of\<close> the two statements after the solve (the frustum and the
  return statement) as a function of \<^verbatim>\<open>aspect\<close> and the solved vector. Lemma
  \<open>estimate_unfolded\<close> shows that the function is composed of exactly these parts.
\<close>

definition solver_object ::
  "Vec2f list \<Rightarrow> Vec4f list \<Rightarrow> int \<Rightarrow> int
     \<Rightarrow> OrthographicParameterProjection NumericalDiff LevenbergMarquardt" where
  "solver_object image_points model_points width height =
     LevenbergMarquardt
       (NumericalDiff
          (OrthographicParameterProjection image_points model_points width height)
          0.0001)"

definition initial_parameters :: "double list" where
  "initial_parameters = (replicate 6 (Finite 0.0))[5 := Finite 110.0]"

definition solved ::
  "'info minimize \<Rightarrow> Vec2f list \<Rightarrow> Vec4f list \<Rightarrow> int \<Rightarrow> int \<Rightarrow> double list" where
  "solved minimize image_points model_points width height =
     snd (minimize (solver_object image_points model_points width height)
            initial_parameters)"

definition result_of :: "float \<Rightarrow> double list \<Rightarrow> error + OrthographicRenderingParameters" where
  "result_of aspect parameters =
     (if \<not> 5 < length parameters
        then Inl (AssertionFailed ''index >= 0 && index < size()'')
      else Inr \<lparr>r_x = float_of_double (parameters ! 0),
                r_y = float_of_double (parameters ! 1),
                r_z = float_of_double (parameters ! 2),
                t_x = float_of_double (parameters ! 3),
                t_y = float_of_double (parameters ! 4),
                frustum =
                  \<lparr>l = float_of_double
                         (double_mul (double_of_float (float_mul (Finite (- 1.0)) aspect))
                            (parameters ! 5)),
                   r = float_of_double
                         (double_mul (double_of_float (float_mul (Finite 1.0) aspect))
                            (parameters ! 5)),
                   b = float_of_double
                         (double_mul (double_of_float (Finite (- 1.0))) (parameters ! 5)),
                   t = float_of_double
                         (double_mul (double_of_float (Finite 1.0)) (parameters ! 5))\<rparr>\<rparr>)"

definition aspect :: "int \<Rightarrow> int \<Rightarrow> float" where
  "aspect width height = float_div (float_of_int width) (float_of_int height)"

subsection \<open>Stand-ins for the solver\<close>

text \<open>
  Three simple functions of the solver's type, to run the function on concrete
  inputs: \<open>constant_solver info ps\<close> reports the status \<open>info\<close> and leaves \<open>ps\<close> in
  the vector, whatever it is given; \<open>returning_solver\<close> hands the vector back
  unchanged, so the result shows the initial vector; \<open>epsfcn_solver\<close> writes the
  \<^verbatim>\<open>epsfcn\<close> it finds in its solver object, as a \<^verbatim>\<open>double\<close>, into every entry of
  the vector.
\<close>

definition constant_solver :: "'info \<Rightarrow> double list \<Rightarrow> 'info minimize" where
  "constant_solver info ps lm x = (info, ps)"

definition returning_solver :: "unit minimize" where
  "returning_solver lm x = ((), x)"

fun epsfcn_solver :: "unit minimize" where
  "epsfcn_solver (LevenbergMarquardt (NumericalDiff f epsfcn)) x =
     ((), map (\<lambda>_. round64 epsfcn) x)"

subsection \<open>The rotation of the forward projection\<close>

text \<open>
  The residual model, \<^verbatim>\<open>detail::OrthographicParameterProjection::operator()\<close>,
  is declared in \<^verbatim>\<open>nonlinear_camera_estimation_detail.hpp\<close>, which is not among the
  sources. Its rotation is modelled from the spec's description of the forward
  projection. Vectors are triples, matrices triples of rows, with the usual
  matrix-vector and matrix-matrix products.
\<close>

type_synonym vec3 = "real \<times> real \<times> real"
type_synonym mat3 = "vec3 \<times> vec3 \<times> vec3"

fun mat_vec :: "mat3 \<Rightarrow> vec3 \<Rightarrow> vec3" where
  "mat_vec ((a11, a12, a13), (a21, a22, a23), (a31, a32, a33)) (x, y, z) =
     (a11 * x + a12 * y + a13 * z,
      a21 * x + a22 * y + a23 * z,
      a31 * x + a32 * y + a33 * z)"

fun mat_mul :: "mat3 \<Rightarrow> mat3 \<Rightarrow> mat3" where
  "mat_mul ((a11, a12, a13), (a21, a22, a23), (a31, a32, a33))
           ((b11, b12, b13), (b21, b22, b23), (b31, b32, b33)) =
     ((a11 * b11 + a12 * b21 + a13 * b31,
       a11 * b12 + a12 * b22 + a13 * b32,
       a11 * b13 + a12 * b23 + a13 * b33),
      (a21 * b11 + a22 * b21 + a23 * b31,
       a21 * b12 + a22 * b22 + a23 * b32,
       a21 * b13 + a22 * b23 + a23 * b33),
      (a31 * b11 + a32 * b21 + a33 * b31,
       a31 * b12 + a32 * b22 + a33 * b32,
       a31 * b13 + a32 * b23 + a33 * b33))"

text \<open>
  Modelled from the spec: the three elementary rotations of the missing residual
  model, by angles in radians. The spec names them yaw, pitch and roll; they are
  taken as the right-handed rotations about the coordinate axes that the comments
  on \<^verbatim>\<open>r_x\<close> (pitch), \<^verbatim>\<open>r_y\<close> (yaw) and \<^verbatim>\<open>r_z\<close> (roll) name.
\<close>

definition rot_mtx_x :: "real \<Rightarrow> mat3" where
  "rot_mtx_x pitch =
     ((1, 0, 0), (0, cos pitch, - sin pitch), (0, sin pitch, cos pitch))"

definition rot_mtx_y :: "real \<Rightarrow> mat3" where
  "rot_mtx_y yaw =
     ((cos yaw, 0, sin yaw), (0, 1, 0), (- sin yaw, 0, cos yaw))"

definition rot_mtx_z :: "real \<Rightarrow> mat3" where
  "rot_mtx_z roll =
     ((cos roll, - sin roll, 0), (sin roll, cos roll, 0), (0, 0, 1))"

text \<open>
  Modelled from the spec: the rotation of the missing residual model, built "from
  the three angles using the composition order roll o pitch o yaw", "i.e., matrix
  product R P Y vertex".
\<close>

definition rotation :: "real \<Rightarrow> real \<Rightarrow> real \<Rightarrow> mat3" where
  "rotation pitch yaw roll =
     mat_mul (rot_mtx_z roll) (mat_mul (rot_mtx_x pitch) (rot_mtx_y yaw))"

text \<open>
  Modelled from the spec: the rotation step of the missing residual model's
  forward projection, applied to a model-space point under the parameter vector
  [pitch, yaw, roll, \<open>t_x\<close>, \<open>t_y\<close>, frustum scale]. The solver evaluates the
  residual model on vectors of six entries only, so the reads are in range.
\<close>

definition rotate_vertex :: "real list \<Rightarrow> vec3 \<Rightarrow> vec3" where
  "rotate_vertex parameters vertex =
     mat_vec (rotation (parameters ! 0) (parameters ! 1) (parameters ! 2)) vertex"

section \<open>Properties\<close>

subsection \<open>Rounding\<close>

lemma pow2_add: "(2::real) powi (i + j) = 2 powi i * 2 powi j"
  by (simp add: power_int_add)

lemma pow2_nat: "(2::real) powi (int n) = 2 ^ n"
  by simp

lemma pow2_mono: "i \<le> j \<Longrightarrow> (2::real) powi i \<le> 2 powi j"
  by (rule power_int_increasing) simp_all

lemma pow2_pos: "0 < (2::real) powi i"
  by simp

lemma pow2_strict_mono: "i < j \<Longrightarrow> (2::real) powi i < 2 powi j"
  by (rule power_int_strict_increasing) simp_all

lemma pow2_cong: "i = j \<Longrightarrow> (2::real) powi i = 2 powi j"
  by simp

lemma log2_up_bounds:
  "1 \<le> x \<Longrightarrow> 2 powi (log2_up x) \<le> x \<and> x < 2 powi (log2_up x + 1)"
proof (induction x rule: log2_up.induct)
  case (1 x)
  show ?case
  proof (cases "x < 2")
    case True
    with 1(2) show ?thesis by (simp add: log2_up.simps)
  next
    case False
    then have "1 \<le> x / 2" by simp
    with 1(1) False have IH: "2 powi (log2_up (x / 2)) \<le> x / 2"
      "x / 2 < 2 powi (log2_up (x / 2) + 1)" by simp_all
    have up: "log2_up x = 1 + log2_up (x / 2)" using False by (simp add: log2_up.simps)
    have "(2::real) powi (1 + log2_up (x / 2)) = 2 * 2 powi (log2_up (x / 2))"
      by (simp add: power_int_add)
    moreover have "(2::real) powi (1 + log2_up (x / 2) + 1) = 2 * 2 powi (log2_up (x / 2) + 1)"
      by (simp add: power_int_add)
    ultimately show ?thesis using IH by (simp add: up)
  qed
qed

lemma log2_down_bounds:
  "0 < x \<Longrightarrow> x < 1 \<Longrightarrow> 2 powi (log2_down x) \<le> x \<and> x < 2 powi (log2_down x + 1)"
proof (induction x rule: log2_down.induct)
  case (1 x)
  have dn: "log2_down x = log2_down (2 * x) - 1" using 1(2,3) by (simp add: log2_down.simps)
  show ?case
  proof (cases "1 \<le> 2 * x")
    case True
    then have "log2_down (2 * x) = 0" by (simp add: log2_down.simps)
    with True 1(3) show ?thesis by (simp add: dn)
  next
    case False
    with 1 have IH: "2 powi (log2_down (2 * x)) \<le> 2 * x"
      "2 * x < 2 powi (log2_down (2 * x) + 1)" by simp_all
    have "(2::real) powi (log2_down (2 * x) - 1) = 2 powi (log2_down (2 * x)) / 2"
      by (simp add: power_int_diff)
    moreover have "(2::real) powi (log2_down (2 * x) - 1 + 1) = 2 powi (log2_down (2 * x) + 1) / 2"
      by (simp add: power_int_add)
    ultimately show ?thesis using IH by (simp add: dn)
  qed
qed

lemma ilog2_bounds:
  assumes "0 < x"
  shows "2 powi (ilog2 x) \<le> x" and "x < 2 powi (ilog2 x + 1)"
  using assms log2_up_bounds [of x] log2_down_bounds [of x]
  by (auto simp: ilog2_def not_le)

lemma ilog2_ge:
  assumes "0 < x" and "2 powi i \<le> x"
  shows "i \<le> ilog2 x"
proof (rule ccontr)
  assume "\<not> i \<le> ilog2 x"
  then have "(2::real) powi (ilog2 x + 1) \<le> 2 powi i" by (intro pow2_mono) simp
  with ilog2_bounds(2) [OF assms(1)] assms(2) show False by linarith
qed

lemma ilog2_less:
  assumes "0 < x" and "x < 2 powi i"
  shows "ilog2 x < i"
proof (rule ccontr)
  assume "\<not> ilog2 x < i"
  then have "(2::real) powi i \<le> 2 powi (ilog2 x)" by (intro pow2_mono) simp
  with ilog2_bounds(1) [OF assms(1)] assms(2) show False by linarith
qed

lemma round_half_even_of_int: "round_half_even (of_int m) = m"
  by (simp add: round_half_even_def)

lemma round_half_even_le: "x \<le> of_int k \<Longrightarrow> round_half_even x \<le> k"
  unfolding round_half_even_def Let_def
  by (auto simp: not_less) linarith+

lemma round_half_even_ge: "of_int k \<le> x \<Longrightarrow> k \<le> round_half_even x"
  unfolding round_half_even_def Let_def
  by (auto simp: not_less) linarith+

lemma round_magnitude_eq:
  "round_magnitude p emin a =
     of_int (round_half_even (a / 2 powi (max (ilog2 a) emin - (int p - 1))))
       * 2 powi (max (ilog2 a) emin - (int p - 1))"
  by (simp add: round_magnitude_def Let_def)

lemma round_magnitude_nonneg:
  assumes a: "0 < a"
  shows "0 \<le> round_magnitude p emin a"
proof -
  define q where "q = (2::real) powi (max (ilog2 a) emin - (int p - 1))"
  have q: "0 < q" unfolding q_def by (rule pow2_pos)
  with a have "of_int 0 \<le> a / q" by simp
  then have "0 \<le> round_half_even (a / q)" by (rule round_half_even_ge)
  with q have "0 \<le> of_int (round_half_even (a / q)) * q" by simp
  then show ?thesis unfolding round_magnitude_eq q_def .
qed

text \<open>
  A number \<open>n * 2^k\<close> with \<open>n\<close> below \<open>2^p\<close> and \<open>k\<close> not below the least exponent of
  the format's spacing is left as it is.
\<close>

lemma round_magnitude_exact:
  assumes n: "0 < n" "n < 2 ^ p" and k: "emin - (int p - 1) \<le> k"
  shows "round_magnitude p emin (of_int n * 2 powi k) = of_int n * 2 powi k"
proof -
  define a where "a = of_int n * (2::real) powi k"
  define e where "e = max (ilog2 a) emin"
  define q where "q = (2::real) powi (e - (int p - 1))"
  have q: "0 < q" unfolding q_def by (rule pow2_pos)
  have a: "0 < a" using n(1) by (simp add: a_def)
  have "of_int n < (2::real) ^ p" using n(2)
    by (metis of_int_less_iff of_int_numeral of_int_power)
  then have "a < 2 ^ p * 2 powi k" unfolding a_def
    by (rule mult_strict_right_mono) (rule pow2_pos)
  also have "\<dots> = 2 powi (int p + k)" by (simp only: pow2_add pow2_nat)
  finally have "ilog2 a < int p + k" by (rule ilog2_less [OF a])
  with k have e: "e - (int p - 1) \<le> k" by (simp add: e_def)
  define j where "j = nat (k - (e - (int p - 1)))"
  have "k = int j + (e - (int p - 1))" using e by (simp add: j_def)
  then have "(2::real) powi k = 2 powi (int j + (e - (int p - 1)))" by simp
  also have "\<dots> = 2 ^ j * q" by (simp only: pow2_add pow2_nat q_def)
  finally have kq: "(2::real) powi k = 2 ^ j * q" .
  have aq: "a = of_int (n * 2 ^ j) * q" by (simp add: a_def kq)
  with q have "a / q = of_int (n * 2 ^ j)" by simp
  then have "round_half_even (a / q) = n * 2 ^ j" by (simp only: round_half_even_of_int)
  then have "of_int (round_half_even (a / q)) * q = a" by (simp only: aq)
  then show ?thesis unfolding round_magnitude_eq a_def [symmetric] e_def [symmetric]
    q_def [symmetric] .
qed

text \<open>What rounding returns is such a number, with \<open>n\<close> at most \<open>2^p\<close>.\<close>

lemma round_magnitude_form:
  assumes a: "0 < a"
  shows "\<exists>m k. round_magnitude p emin a = of_int m * 2 powi k
           \<and> 0 \<le> m \<and> m \<le> 2 ^ p \<and> emin - (int p - 1) \<le> k"
proof -
  define e where "e = max (ilog2 a) emin"
  define q where "q = (2::real) powi (e - (int p - 1))"
  define m where "m = round_half_even (a / q)"
  have q: "0 < q" unfolding q_def by (rule pow2_pos)
  have "a < 2 powi (ilog2 a + 1)" by (rule ilog2_bounds(2) [OF a])
  also have "\<dots> \<le> 2 powi (e + 1)" by (rule pow2_mono) (simp add: e_def)
  also have "\<dots> = 2 ^ p * q"
  proof -
    have "e + 1 = int p + (e - (int p - 1))" by simp
    then have "(2::real) powi (e + 1) = 2 powi (int p + (e - (int p - 1)))" by simp
    also have "\<dots> = 2 ^ p * q" by (simp only: pow2_add pow2_nat q_def)
    finally show ?thesis .
  qed
  finally have "a / q < 2 ^ p" using q by (simp add: divide_less_eq)
  then have "a / q \<le> of_int (2 ^ p)" by simp
  then have up: "m \<le> 2 ^ p" unfolding m_def by (rule round_half_even_le)
  from a q have "of_int 0 \<le> a / q" by simp
  then have lo: "0 \<le> m" unfolding m_def by (rule round_half_even_ge)
  have "round_magnitude p emin a = of_int m * 2 powi (e - (int p - 1))"
    unfolding round_magnitude_eq m_def q_def e_def ..
  moreover have "emin - (int p - 1) \<le> e - (int p - 1)" by (simp add: e_def)
  ultimately show ?thesis using lo up by blast
qed

lemma round_magnitude_idem:
  assumes a: "0 < a" and p: "0 < p" and y: "0 < round_magnitude p emin a"
  shows "round_magnitude p emin (round_magnitude p emin a) = round_magnitude p emin a"
proof -
  from round_magnitude_form [OF a] obtain m k
    where f: "round_magnitude p emin a = of_int m * 2 powi k"
      and m: "0 \<le> m" "m \<le> 2 ^ p" and k: "emin - (int p - 1) \<le> k"
    by blast
  have "m \<noteq> 0" using y f by auto
  with m(1) have m0: "0 < m" by simp
  show ?thesis
  proof (cases "m = 2 ^ p")
    case False
    with m(2) have "m < 2 ^ p" by simp
    from round_magnitude_exact [OF m0 this k] show ?thesis by (simp only: f)
  next
    case True
    from p obtain p' where p': "p = Suc p'" by (cases p) auto
    have 1: "(0::int) < 2 ^ p'" by simp
    have 2: "(2::int) ^ p' < 2 ^ p" by (simp add: p')
    have 3: "emin - (int p - 1) \<le> k + 1" using k by simp
    have "of_int m * (2::real) powi k = of_int (2 ^ p') * 2 powi (k + 1)"
      by (simp add: True p' pow2_add)
    with round_magnitude_exact [OF 1 2 3] show ?thesis by (simp only: f)
  qed
qed

text \<open>Rounding to a format is idempotent, odd, and keeps the sign.\<close>

lemma round_to_format_idem:
  assumes p: "0 < p" and r: "round_to_format p emin emax x = Finite z"
  shows "round_to_format p emin emax z = Finite z"
proof (cases "z = 0")
  case True
  then show ?thesis by (simp add: round_to_format_def)
next
  case False
  with r have x: "x \<noteq> 0" by (auto simp: round_to_format_def)
  define y where "y = round_magnitude p emin \<bar>x\<bar>"
  from x have ax: "0 < \<bar>x\<bar>" by simp
  from r x have ov: "\<not> 2 powi (emax + 1) \<le> y" and z: "z = (if x < 0 then - y else y)"
    by (auto simp: round_to_format_def Let_def y_def split: if_splits)
  from round_magnitude_nonneg [OF ax] have "0 \<le> y" by (simp add: y_def)
  with False z have y: "0 < y" by (auto split: if_splits)
  then have az: "\<bar>z\<bar> = y" and sz: "z < 0 \<longleftrightarrow> x < 0" using z by (auto split: if_splits)
  from round_magnitude_idem [OF ax p] y have "round_magnitude p emin y = y"
    by (simp add: y_def)
  then have rz: "round_magnitude p emin \<bar>z\<bar> = y" by (simp only: az)
  have zy: "Finite (if z < 0 then - y else y) = Finite z" using az by auto
  have "round_to_format p emin emax z =
      (if 2 powi (emax + 1) \<le> y
         then (if z < 0 then MinusInfinity else PlusInfinity)
       else Finite (if z < 0 then - y else y))"
    using False unfolding round_to_format_def Let_def rz by simp
  with ov zy show ?thesis by simp
qed

lemma round_to_format_neg:
  "round_to_format p emin emax (- x) = ieee_neg (round_to_format p emin emax x)"
  by (simp add: round_to_format_def Let_def)

lemma round_to_format_nonpos:
  assumes "x \<le> 0"
  shows "ieee_less_eq (round_to_format p emin emax x) (Finite 0)"
proof (cases "x = 0")
  case True
  then show ?thesis by (simp add: round_to_format_def)
next
  case False
  with assms have x: "x < 0" "0 < \<bar>x\<bar>" by simp_all
  from round_magnitude_nonneg [OF x(2), of p emin] have "0 \<le> round_magnitude p emin \<bar>x\<bar>" .
  with x(1) show ?thesis
    unfolding round_to_format_def Let_def by auto
qed

text \<open>
  A positive number between two powers of 2 within the format's range of normal
  numbers rounds to a finite number between the same powers.
\<close>

lemma round_to_format_bounds:
  assumes lo: "2 powi lo \<le> x" and hi: "x < 2 powi hi"
    and emin: "emin \<le> lo" and emax: "hi \<le> emax" and p: "0 < p"
  shows "\<exists>y. round_to_format p emin emax x = Finite y \<and> 2 powi lo \<le> y \<and> y \<le> 2 powi hi"
proof -
  have x: "0 < x" using lo pow2_pos [of lo] by linarith
  define e where "e = ilog2 x"
  define q where "q = (2::real) powi (e - (int p - 1))"
  define m where "m = round_half_even (x / q)"
  have q: "0 < q" unfolding q_def by (rule pow2_pos)
  have e_lo: "lo \<le> e" unfolding e_def by (rule ilog2_ge [OF x lo])
  have e_hi: "e < hi" unfolding e_def by (rule ilog2_less [OF x hi])
  from e_lo emin have me: "max (ilog2 x) emin = e" by (simp add: e_def)
  have y: "round_magnitude p emin x = of_int m * q"
    unfolding round_magnitude_eq me m_def q_def ..
  from p obtain p' where p': "p = Suc p'" by (cases p) auto
  have eq: "(2::real) powi e = 2 ^ p' * q"
  proof -
    have "e = int p' + (e - (int p - 1))" by (simp add: p')
    then have "(2::real) powi e = 2 powi (int p' + (e - (int p - 1)))" by (rule pow2_cong)
    also have "\<dots> = 2 ^ p' * q" by (simp only: pow2_add pow2_nat q_def)
    finally show ?thesis .
  qed
  have eq1: "(2::real) powi (e + 1) = 2 ^ p * q"
  proof -
    have "e + 1 = int p + (e - (int p - 1))" by simp
    then have "(2::real) powi (e + 1) = 2 powi (int p + (e - (int p - 1)))" by (rule pow2_cong)
    also have "\<dots> = 2 ^ p * q" by (simp only: pow2_add pow2_nat q_def)
    finally show ?thesis .
  qed
  have "2 ^ p' * q \<le> x" using ilog2_bounds(1) [OF x] by (simp only: e_def [symmetric] eq)
  then have "of_int (2 ^ p') \<le> x / q" using q by (simp add: le_divide_eq)
  then have "2 ^ p' \<le> m" unfolding m_def by (rule round_half_even_ge)
  then have "(2::real) ^ p' \<le> of_int m"
    by (metis of_int_le_iff of_int_numeral of_int_power)
  then have "2 ^ p' * q \<le> of_int m * q" using q by simp
  then have "2 powi e \<le> of_int m * q" by (simp only: eq)
  with pow2_mono [OF e_lo] have 1: "2 powi lo \<le> of_int m * q" by linarith
  have "x < 2 ^ p * q" using ilog2_bounds(2) [OF x] by (simp only: e_def [symmetric] eq1)
  then have "x / q \<le> of_int (2 ^ p)" using q by (simp add: divide_le_eq)
  then have "m \<le> 2 ^ p" unfolding m_def by (rule round_half_even_le)
  then have "of_int m \<le> (2::real) ^ p"
    by (metis of_int_le_iff of_int_numeral of_int_power)
  then have "of_int m * q \<le> 2 ^ p * q" using q by simp
  then have "of_int m * q \<le> 2 powi (e + 1)" by (simp only: eq1)
  moreover have "(2::real) powi (e + 1) \<le> 2 powi hi" using e_hi by (intro pow2_mono) simp
  ultimately have 2: "of_int m * q \<le> 2 powi hi" by linarith
  have "(2::real) powi hi < 2 powi (emax + 1)" using emax by (intro pow2_strict_mono) simp
  with 2 have ov: "\<not> 2 powi (emax + 1) \<le> of_int m * q" by linarith
  have "round_to_format p emin emax x = Finite (of_int m * q)"
    using x ov unfolding round_to_format_def Let_def by (simp add: y)
  with 1 2 show ?thesis by blast
qed

subsection \<open>The operations\<close>

lemma round32_neg: "round32 (- x) = ieee_neg (round32 x)"
  by (simp add: round32_def round_to_format_neg)

lemma round64_neg: "round64 (- x) = ieee_neg (round64 x)"
  by (simp add: round64_def round_to_format_neg)

lemma is_binary32_round32: "is_binary32 (round32 x)"
  by (auto simp: is_binary32_def round32_def split: ieee.splits
      intro: round_to_format_idem [rotated])

lemma round32_0: "round32 0 = Finite 0"
  by (simp add: round32_def round_to_format_def)

lemma is_binary32_float_of_double: "is_binary32 (float_of_double v)"
  by (cases v) (simp_all add: is_binary32_round32, simp_all add: is_binary32_def)

lemma is_binary32_float_div: "is_binary32 (float_div u v)"
  by (cases u; cases v)
    (simp_all add: is_binary32_round32, simp_all add: is_binary32_def round32_0)

lemma is_binary32_aspect: "is_binary32 (aspect w h)"
  by (simp add: aspect_def is_binary32_float_div)

lemma float_of_double_neg: "float_of_double (ieee_neg v) = ieee_neg (float_of_double v)"
  by (cases v) (simp_all add: round32_neg)

lemma ieee_mul_neg_left:
  assumes "\<And>x. rnd (- x) = ieee_neg (rnd x)"
  shows "ieee_mul rnd (ieee_neg u) v = ieee_neg (ieee_mul rnd u v)"
  by (cases u; cases v) (auto simp: assms)

lemma ieee_mul_minus_one:
  assumes "\<And>x. rnd (- x) = ieee_neg (rnd x)"
  shows "ieee_mul rnd (Finite (- 1)) v = ieee_neg (ieee_mul rnd (Finite 1) v)"
  using ieee_mul_neg_left [of rnd "Finite 1" v, OF assms] by simp

lemma float_mul_one: "is_binary32 v \<Longrightarrow> float_mul (Finite 1) v = v"
  by (cases v) (simp_all add: float_mul_def is_binary32_def)

lemma double_mul_one: "is_binary64 v \<Longrightarrow> double_mul (Finite 1) v = v"
  by (cases v) (simp_all add: double_mul_def is_binary64_def)

lemma float_mul_minus_one: "float_mul (Finite (- 1)) v = ieee_neg (float_mul (Finite 1) v)"
  unfolding float_mul_def by (rule ieee_mul_minus_one) (rule round32_neg)

lemma double_mul_minus_one: "double_mul (Finite (- 1)) v = ieee_neg (double_mul (Finite 1) v)"
  unfolding double_mul_def by (rule ieee_mul_minus_one) (rule round64_neg)

lemma double_mul_neg_left: "double_mul (ieee_neg u) v = ieee_neg (double_mul u v)"
  unfolding double_mul_def by (rule ieee_mul_neg_left) (rule round64_neg)

text \<open>Signs: a non-positive value stays non-positive, and is below its negation unless it is zero.\<close>

lemma float_of_double_nonpos:
  "ieee_less_eq v (Finite 0) \<Longrightarrow> ieee_less_eq (float_of_double v) (Finite 0)"
  by (cases v) (simp_all add: round32_def round_to_format_nonpos)

lemma double_mul_one_nonpos:
  "ieee_less v (Finite 0) \<Longrightarrow> ieee_less_eq (double_mul (Finite 1) v) (Finite 0)"
  by (cases v) (simp_all add: double_mul_def round64_def round_to_format_nonpos)

lemma double_mul_pos_neg:
  assumes "ieee_less (Finite 0) u" and "ieee_less v (Finite 0)"
  shows "ieee_less_eq (double_mul u v) (Finite 0)"
proof (cases u)
  case (Finite x)
  with assms(1) have x: "0 < x" by simp
  show ?thesis
  proof (cases v)
    case (Finite y)
    with assms(2) have "y < 0" by simp
    with x have "x * y \<le> 0" by (simp add: mult_le_0_iff)
    then show ?thesis using \<open>u = Finite x\<close> Finite
      by (simp add: double_mul_def round64_def round_to_format_nonpos)
  qed (use assms(2) x \<open>u = Finite x\<close> in \<open>simp_all add: double_mul_def\<close>)
next
  case PlusInfinity
  then show ?thesis using assms(2) by (cases v) (simp_all add: double_mul_def)
qed (use assms(1) in simp_all)

lemma nonpos_less_neg:
  "ieee_less_eq v (Finite 0) \<Longrightarrow> v \<noteq> Finite 0 \<Longrightarrow> ieee_less v (ieee_neg v)"
  by (cases v) auto

text \<open>An \<^verbatim>\<open>int\<close> of magnitude up to \<open>2^24\<close> converts to \<^verbatim>\<open>float\<close> exactly.\<close>

lemma float_of_int_exact:
  assumes "\<bar>i\<bar> \<le> 2 ^ 24"
  shows "float_of_int i = Finite (real_of_int i)"
proof (cases "i = 0")
  case True
  then show ?thesis by (simp add: float_of_int_def round32_0)
next
  case False
  define n where "n = \<bar>i\<bar>"
  from False have n0: "0 < n" by (simp add: n_def)
  have mag: "round_magnitude 24 (- 126) (of_int n) = of_int n"
  proof (cases "n = 2 ^ 24")
    case False
    with assms have "n < 2 ^ 24" by (simp add: n_def)
    from round_magnitude_exact [OF n0 this, of "- 126" 0] show ?thesis by simp
  next
    case True
    have "round_magnitude 24 (- 126) (of_int (2 ^ 23) * 2 powi 1) = of_int (2 ^ 23) * 2 powi 1"
      by (rule round_magnitude_exact) simp_all
    then show ?thesis by (simp add: True)
  qed
  have abs: "\<bar>real_of_int i\<bar> = of_int n" by (simp add: n_def)
  have "real_of_int n \<le> 2 ^ 24" using assms
    by (metis n_def of_int_le_iff of_int_numeral of_int_power)
  also have "\<dots> < 2 powi (127 + 1)" by simp
  finally have ov: "\<not> 2 powi (127 + 1) \<le> real_of_int n" by simp
  have "(if real_of_int i < 0 then - real_of_int n else real_of_int n) = real_of_int i"
    by (simp add: n_def)
  with False ov show ?thesis
    unfolding float_of_int_def round32_def round_to_format_def Let_def abs mag by simp
qed

text \<open>
  Two \<^verbatim>\<open>int\<close>s of the same sign (an \<^verbatim>\<open>int\<close> has magnitude at most \<open>2^31\<close>) have a
  positive, finite aspect ratio.
\<close>

lemma float_of_int_pos:
  assumes "0 < i" and "i \<le> 2 ^ 31"
  shows "\<exists>y. float_of_int i = Finite y \<and> 1 \<le> y \<and> y \<le> 2 ^ 32"
proof -
  have "1 \<le> real_of_int i" using assms(1) by simp
  then have lo: "2 powi 0 \<le> real_of_int i" by simp
  have "real_of_int i \<le> 2 ^ 31" using assms(2)
    by (metis of_int_le_iff of_int_numeral of_int_power)
  then have hi: "real_of_int i < 2 powi 32" by simp
  from round_to_format_bounds [OF lo hi, of "- 126" 127 24]
  show ?thesis by (simp add: float_of_int_def round32_def)
qed

lemma float_div_pos:
  assumes "1 \<le> x" "x \<le> 2 ^ 32" "1 \<le> y" "y \<le> 2 ^ 32"
  shows "ieee_less (Finite 0) (float_div (Finite x) (Finite y))"
proof -
  have y0: "0 < y" using assms(3) by simp
  have "1 / 2 ^ 32 \<le> 1 / y" using assms(4) y0 by (simp add: frac_le)
  also have "1 / y \<le> x / y" using assms(1) y0 by (simp add: divide_le_cancel)
  finally have lo: "2 powi (- 32) \<le> x / y" by (simp add: power_int_minus divide_simps)
  have "x / y \<le> x / 1" using assms(1,3) by (intro divide_left_mono) simp_all
  with assms(2) have hi: "x / y < 2 powi 33" by simp
  from round_to_format_bounds [OF lo hi, of "- 126" 127 24]
  obtain z where z: "round32 (x / y) = Finite z" "2 powi (- 32) \<le> z"
    by (auto simp: round32_def)
  have "0 < (2::real) powi (- 32)" by (rule pow2_pos)
  with z y0 show ?thesis by simp
qed

lemma aspect_positive:
  assumes sign: "0 < w \<and> 0 < h \<or> w < 0 \<and> h < 0"
    and w: "\<bar>w\<bar> \<le> 2 ^ 31" and h: "\<bar>h\<bar> \<le> 2 ^ 31"
  shows "ieee_less (Finite 0) (aspect w h)"
proof -
  have pos: "ieee_less (Finite 0) (aspect i j)"
    if "0 < i" "i \<le> 2 ^ 31" "0 < j" "j \<le> 2 ^ 31" for i j
  proof -
    from float_of_int_pos [OF that(1,2)] obtain x
      where x: "float_of_int i = Finite x" "1 \<le> x" "x \<le> 2 ^ 32" by blast
    from float_of_int_pos [OF that(3,4)] obtain y
      where y: "float_of_int j = Finite y" "1 \<le> y" "y \<le> 2 ^ 32" by blast
    from float_div_pos [OF x(2,3) y(2,3)] show ?thesis by (simp add: aspect_def x(1) y(1))
  qed
  from sign show ?thesis
  proof
    assume "0 < w \<and> 0 < h"
    with w h show ?thesis by (intro pos) simp_all
  next
    assume neg: "w < 0 \<and> h < 0"
    with w h have p: "ieee_less (Finite 0) (aspect (- w) (- h))" by (intro pos) simp_all
    from neg w float_of_int_pos [of "- w"] obtain x
      where x: "float_of_int (- w) = Finite x" "1 \<le> x" by auto
    from neg h float_of_int_pos [of "- h"] obtain y
      where y: "float_of_int (- h) = Finite y" "1 \<le> y" by auto
    have "float_of_int w = ieee_neg (float_of_int (- w))"
      by (simp add: float_of_int_def round32_neg [symmetric])
    then have fw: "float_of_int w = Finite (- x)" by (simp add: x(1))
    have "float_of_int h = ieee_neg (float_of_int (- h))"
      by (simp add: float_of_int_def round32_neg [symmetric])
    then have fh: "float_of_int h = Finite (- y)" by (simp add: y(1))
    have "aspect w h = aspect (- w) (- h)"
      using y(2) by (simp add: aspect_def fw fh x(1) y(1))
    with p show ?thesis by simp
  qed
qed

subsection \<open>Evaluation on concrete inputs\<close>

lemmas ieee_eval =
  round32_def round64_def round_to_format_def round_magnitude_def ilog2_def
  round_half_even_def log2_up.simps log2_down.simps Let_def
  float_mul_def double_mul_def float_of_int_def double_of_float_def aspect_def
  is_binary32_def is_binary64_def

lemma aspect_640_480: "aspect 640 480 = Finite (11184811 / 8388608)"
  by (simp add: ieee_eval)

lemma aspect_200_200: "aspect 200 200 = Finite 1"
  by (simp add: ieee_eval)

subsection \<open>The shape of the function\<close>

lemma initial_parameters_list:
  "initial_parameters = [Finite 0, Finite 0, Finite 0, Finite 0, Finite 0, Finite 110]"
  by (simp add: initial_parameters_def numeral_eq_Suc)

lemma estimate_unfolded:
  "estimate_orthographic_camera minimize ips mps w h =
     (if length ips \<noteq> length mps
        then Inl (AssertionFailed ''image_points.size() == model_points.size()'')
      else if \<not> 6 \<le> length ips
        then Inl (AssertionFailed ''image_points.size() >= 6'')
      else result_of (aspect w h) (solved minimize ips mps w h))"
  unfolding estimate_orthographic_camera_def solved_def solver_object_def
    initial_parameters_def result_of_def aspect_def Let_def
  by (simp add: split_beta)

lemma estimate_Inr:
  assumes "estimate_orthographic_camera minimize ips mps w h = Inr res"
  shows "length ips = length mps" and "6 \<le> length ips"
    and "result_of (aspect w h) (solved minimize ips mps w h) = Inr res"
  using assms by (auto simp: estimate_unfolded split: if_splits)

text \<open>The fields of a packed result, as the source computes them.\<close>

lemma result_of_Inr:
  assumes "result_of a ps = Inr res"
  shows "5 < length ps"
    and "r_x res = float_of_double (ps ! 0)" and "r_y res = float_of_double (ps ! 1)"
    and "r_z res = float_of_double (ps ! 2)" and "t_x res = float_of_double (ps ! 3)"
    and "t_y res = float_of_double (ps ! 4)"
    and "l (frustum res) =
           float_of_double (double_mul (float_mul (Finite (- 1)) a) (ps ! 5))"
    and "r (frustum res) =
           float_of_double (double_mul (float_mul (Finite 1) a) (ps ! 5))"
    and "b (frustum res) = float_of_double (double_mul (Finite (- 1)) (ps ! 5))"
    and "t (frustum res) = float_of_double (double_mul (Finite 1) (ps ! 5))"
  using assms by (auto simp: result_of_def double_of_float_def split: if_splits)

text \<open>Left is the negation of right and bottom that of top, whatever the values are.\<close>

lemma result_of_symmetric:
  assumes "result_of a ps = Inr res"
  shows "l (frustum res) = ieee_neg (r (frustum res))"
    and "b (frustum res) = ieee_neg (t (frustum res))"
  using result_of_Inr(7-10) [OF assms]
  by (simp_all add: float_mul_minus_one double_mul_minus_one double_mul_neg_left
      float_of_double_neg)

text \<open>
  With a \<^verbatim>\<open>float\<close> aspect ratio and a \<^verbatim>\<open>double\<close> scale the products with 1 and -1
  are exact.
\<close>

lemma result_of_frustum:
  assumes "result_of a ps = Inr res" and "is_binary32 a" and "is_binary64 (ps ! 5)"
  shows "frustum res =
           \<lparr>l = float_of_double (double_mul (ieee_neg a) (ps ! 5)),
            r = float_of_double (double_mul a (ps ! 5)),
            b = float_of_double (ieee_neg (ps ! 5)),
            t = float_of_double (ps ! 5)\<rparr>"
proof -
  have "l (frustum res) = float_of_double (double_mul (ieee_neg a) (ps ! 5))"
    and "r (frustum res) = float_of_double (double_mul a (ps ! 5))"
    and "b (frustum res) = float_of_double (ieee_neg (ps ! 5))"
    and "t (frustum res) = float_of_double (ps ! 5)"
    using result_of_Inr(7-10) [OF assms(1)] assms(2,3)
    by (simp_all add: float_mul_minus_one double_mul_minus_one float_mul_one double_mul_one)
  then show ?thesis by (cases "frustum res") simp
qed

text \<open>Runs of the function used as instances below.\<close>

lemma run_640_480:
  "estimate_orthographic_camera
      (constant_solver info [Finite 1, Finite 2, Finite 3, Finite 4, Finite 5, Finite 6])
       (replicate 6 (Finite 0, Finite 0))
       (replicate 6 (Finite 0, Finite 0, Finite 0, Finite 1)) 640 480 =
     Inr \<lparr>r_x = Finite 1, r_y = Finite 2, r_z = Finite 3, t_x = Finite 4, t_y = Finite 5,
          frustum = \<lparr>l = Finite (- 8), r = Finite 8,
              b = Finite (- 6), t = Finite 6\<rparr>\<rparr>"
  by (simp add: estimate_unfolded result_of_def solved_def constant_solver_def
      aspect_640_480 ieee_eval)

lemma run_640_480_scale_110:
  "estimate_orthographic_camera
       (constant_solver () [Finite 0, Finite 0, Finite 0, Finite 0, Finite 0, Finite 110])
      
       (replicate 6 (Finite 0, Finite 0))
       (replicate 6 (Finite 0, Finite 0, Finite 0, Finite 1)) 640 480 =
     Inr \<lparr>r_x = Finite 0, r_y = Finite 0, r_z = Finite 0, t_x = Finite 0, t_y = Finite 0,
          frustum = \<lparr>l = Finite (- (9611947 / 65536)), r = Finite (9611947 / 65536),
                     b = Finite (- 110), t = Finite 110\<rparr>\<rparr>"
  by (simp add: estimate_unfolded result_of_def solved_def constant_solver_def
      aspect_640_480 ieee_eval)

lemma mat_vec_mat_mul: "mat_vec (mat_mul A B) v = mat_vec A (mat_vec B v)"
proof -
  obtain a1 a2 a3 where A: "A = (a1, a2, a3)" by (cases A)
  obtain b1 b2 b3 where B: "B = (b1, b2, b3)" by (cases B)
  obtain a11 a12 a13 where a1: "a1 = (a11, a12, a13)" by (cases a1)
  obtain a21 a22 a23 where a2: "a2 = (a21, a22, a23)" by (cases a2)
  obtain a31 a32 a33 where a3: "a3 = (a31, a32, a33)" by (cases a3)
  obtain b11 b12 b13 where b1: "b1 = (b11, b12, b13)" by (cases b1)
  obtain b21 b22 b23 where b2: "b2 = (b21, b22, b23)" by (cases b2)
  obtain b31 b32 b33 where b3: "b3 = (b31, b32, b33)" by (cases b3)
  obtain x y z where v: "v = (x, y, z)" by (cases v)
  show ?thesis
    unfolding A B a1 a2 a3 b1 b2 b3 v by (simp add: algebra_simps)
qed

subsection \<open>Preconditions\<close>

text \<open>
  C1. If \<^verbatim>\<open>image_points\<close> and \<^verbatim>\<open>model_points\<close> differ in length the first
  assertion fails; if they agree and there are fewer than 6 the second one fails;
  in both cases the call yields the assertion failure and no result. With equal
  lengths of at least 6 both assertions pass, and the outcome of the call is that
  of the solve followed by the packing of the solved vector.
\<close>

theorem precondition_assertions:
  "(length ips \<noteq> length mps \<longrightarrow>
      estimate_orthographic_camera minimize ips mps w h =
        Inl (AssertionFailed ''image_points.size() == model_points.size()''))
   \<and> (length ips = length mps \<and> length ips < 6 \<longrightarrow>
      estimate_orthographic_camera minimize ips mps w h =
        Inl (AssertionFailed ''image_points.size() >= 6''))
   \<and> (length ips = length mps \<and> 6 \<le> length ips \<longrightarrow>
      estimate_orthographic_camera minimize ips mps w h =
        result_of (aspect w h) (solved minimize ips mps w h))"
  by (simp add: estimate_unfolded)

theorem precondition_assertions_witness:
  "estimate_orthographic_camera
      (constant_solver () [Finite 1, Finite 2, Finite 3, Finite 4, Finite 5, Finite 6])
       (replicate 5 (Finite 0, Finite 0))
       (replicate 6 (Finite 0, Finite 0, Finite 0, Finite 1)) 640 480 =
     Inl (AssertionFailed ''image_points.size() == model_points.size()'')
   \<and> estimate_orthographic_camera
       (constant_solver () [Finite 1, Finite 2, Finite 3, Finite 4, Finite 5, Finite 6])
       (replicate 5 (Finite 0, Finite 0))
       (replicate 5 (Finite 0, Finite 0, Finite 0, Finite 1)) 640 480 =
     Inl (AssertionFailed ''image_points.size() >= 6'')
   \<and> estimate_orthographic_camera
       (constant_solver () [Finite 1, Finite 2, Finite 3, Finite 4, Finite 5, Finite 6])
      
       (replicate 6 (Finite 0, Finite 0))
       (replicate 6 (Finite 0, Finite 0, Finite 0, Finite 1)) 640 480 =
     Inr \<lparr>r_x = Finite 1, r_y = Finite 2, r_z = Finite 3, t_x = Finite 4, t_y = Finite 5,
          frustum = \<lparr>l = Finite (- 8), r = Finite 8,
              b = Finite (- 6), t = Finite 6\<rparr>\<rparr>"
  using
    precondition_assertions [of "replicate 5 (Finite 0, Finite 0)"
      "replicate 6 (Finite 0, Finite 0, Finite 0, Finite 1)"
      "constant_solver () [Finite 1, Finite 2, Finite 3, Finite 4, Finite 5, Finite 6]" 640 480]
    precondition_assertions [of "replicate 5 (Finite 0, Finite 0)"
      "replicate 5 (Finite 0, Finite 0, Finite 0, Finite 1)"
      "constant_solver () [Finite 1, Finite 2, Finite 3, Finite 4, Finite 5, Finite 6]" 640 480]
    precondition_assertions [of "replicate 6 (Finite 0, Finite 0)"
      "replicate 6 (Finite 0, Finite 0, Finite 0, Finite 1)"
      "constant_solver () [Finite 1, Finite 2, Finite 3, Finite 4, Finite 5, Finite 6]" 640 480]
  by (simp add: run_640_480)

subsection \<open>What the solver is given\<close>

text \<open>
  C4. The vector handed to the solver is \<open>initial_parameters\<close>: it has exactly 6
  entries, the first five (pitch, yaw, roll, \<open>t_x\<close>, \<open>t_y\<close>) are 0 and the sixth
  (the frustum scale) is 110. It is a constant: whatever the correspondences and
  the image size are, a call that passes the assertions runs the solver on this
  vector and packs what the solver leaves in it.
\<close>

theorem initial_guess_is_fixed:
  "initial_parameters = [Finite 0, Finite 0, Finite 0, Finite 0, Finite 0, Finite 110]
   \<and> length initial_parameters = 6
   \<and> (length ips = length mps \<and> 6 \<le> length ips \<longrightarrow>
        estimate_orthographic_camera minimize ips mps w h =
          result_of (aspect w h)
            (snd (minimize (solver_object ips mps w h)
               [Finite 0, Finite 0, Finite 0, Finite 0, Finite 0, Finite 110])))"
  by (simp add: estimate_unfolded solved_def initial_parameters_list)

theorem initial_guess_is_fixed_witness:
  "estimate_orthographic_camera returning_solver
       (replicate 6 (Finite 0, Finite 0))
       (replicate 6 (Finite 0, Finite 0, Finite 0, Finite 1)) 640 480 =
     Inr \<lparr>r_x = Finite 0, r_y = Finite 0, r_z = Finite 0, t_x = Finite 0, t_y = Finite 0,
          frustum = \<lparr>l = Finite (- (9611947 / 65536)), r = Finite (9611947 / 65536),
                     b = Finite (- 110), t = Finite 110\<rparr>\<rparr>"
  using initial_guess_is_fixed [of "replicate 6 (Finite 0, Finite 0)"
      "replicate 6 (Finite 0, Finite 0, Finite 0, Finite 1)" returning_solver 640 480]
  by (simp add: result_of_def returning_solver_def aspect_640_480 ieee_eval)

text \<open>
  C8. The solver object is built on the cost functor wrapped into
  \<^verbatim>\<open>Eigen::NumericalDiff\<close>, the finite-difference wrapper, constructed with the
  explicit \<^verbatim>\<open>epsfcn\<close> argument 0.0001 (one ten-thousandth) in place of the
  constructor's default; the solver never gets the bare functor or another step
  parameter.
\<close>

theorem numerical_diff_epsfcn:
  "length ips = length mps \<and> 6 \<le> length ips \<longrightarrow>
     estimate_orthographic_camera minimize ips mps w h =
       result_of (aspect w h)
         (snd (minimize
            (LevenbergMarquardt
               (NumericalDiff (OrthographicParameterProjection ips mps w h) (1 / 10000)))
            initial_parameters))"
  by (simp add: estimate_unfolded solved_def solver_object_def)

theorem numerical_diff_epsfcn_witness:
  "estimate_orthographic_camera epsfcn_solver
       (replicate 6 (Finite 0, Finite 0))
       (replicate 6 (Finite 0, Finite 0, Finite 0, Finite 1)) 200 200 =
     Inr \<lparr>r_x = Finite (13743895 / 137438953472), r_y = Finite (13743895 / 137438953472),
          r_z = Finite (13743895 / 137438953472), t_x = Finite (13743895 / 137438953472),
          t_y = Finite (13743895 / 137438953472),
          frustum = \<lparr>l = Finite (- (13743895 / 137438953472)),
                     r = Finite (13743895 / 137438953472),
                     b = Finite (- (13743895 / 137438953472)),
                     t = Finite (13743895 / 137438953472)\<rparr>\<rparr>"
  using numerical_diff_epsfcn [of "replicate 6 (Finite 0, Finite 0)"
      "replicate 6 (Finite 0, Finite 0, Finite 0, Finite 1)" epsfcn_solver 200 200]
  by (simp add: result_of_def initial_parameters_list aspect_200_200 ieee_eval)

subsection \<open>What the function returns\<close>

text \<open>
  C3. A call that passes the assertions returns a result, and the result is the
  packing of whatever vector the solver left behind. The status the solver
  returns plays no part: a second run in which the solver leaves the same
  vector, with any status of any type, returns the same result. (The solved
  vector still has its six entries, as \<^verbatim>\<open>minimize\<close> never resizes it.)
\<close>

theorem solver_status_is_ignored:
  fixes m1 :: "'a minimize" and m2 :: "'b minimize"
  assumes "length ips = length mps" and "6 \<le> length ips"
    and "5 < length (solved m1 ips mps w h)"
    and "solved m2 ips mps w h = solved m1 ips mps w h"
  shows "\<exists>res. result_of (aspect w h) (solved m1 ips mps w h) = Inr res
           \<and> estimate_orthographic_camera m1 ips mps w h = Inr res
           \<and> estimate_orthographic_camera m2 ips mps w h = Inr res"
proof -
  from assms(3) obtain res
    where res: "result_of (aspect w h) (solved m1 ips mps w h) = Inr res"
    by (auto simp: result_of_def)
  from assms(1,2) res have "estimate_orthographic_camera m1 ips mps w h = Inr res"
    by (simp add: estimate_unfolded)
  moreover from assms(1,2,4) res have "estimate_orthographic_camera m2 ips mps w h = Inr res"
    by (simp add: estimate_unfolded)
  ultimately show ?thesis using res by blast
qed

text \<open>
  An instance: Eigen's status 1 (a converged run) and status 5 (too many function
  evaluations) with the same vector give the same result.
\<close>

theorem solver_status_is_ignored_witness:
  "estimate_orthographic_camera
      (constant_solver (1::int) [Finite 1, Finite 2, Finite 3, Finite 4, Finite 5, Finite 6])
       (replicate 6 (Finite 0, Finite 0))
       (replicate 6 (Finite 0, Finite 0, Finite 0, Finite 1)) 640 480 =
     Inr \<lparr>r_x = Finite 1, r_y = Finite 2, r_z = Finite 3, t_x = Finite 4, t_y = Finite 5,
          frustum = \<lparr>l = Finite (- 8), r = Finite 8,
              b = Finite (- 6), t = Finite 6\<rparr>\<rparr>
   \<and> estimate_orthographic_camera
       (constant_solver (5::int) [Finite 1, Finite 2, Finite 3, Finite 4, Finite 5, Finite 6])
       (replicate 6 (Finite 0, Finite 0))
       (replicate 6 (Finite 0, Finite 0, Finite 0, Finite 1)) 640 480 =
     Inr \<lparr>r_x = Finite 1, r_y = Finite 2, r_z = Finite 3, t_x = Finite 4, t_y = Finite 5,
          frustum = \<lparr>l = Finite (- 8), r = Finite 8,
              b = Finite (- 6), t = Finite 6\<rparr>\<rparr>"
  using solver_status_is_ignored [of "replicate 6 (Finite 0, Finite 0)"
      "replicate 6 (Finite 0, Finite 0, Finite 0, Finite 1)"
      "constant_solver (1::int) [Finite 1, Finite 2, Finite 3, Finite 4, Finite 5, Finite 6]"
          640 480
      "constant_solver (5::int) [Finite 1, Finite 2, Finite 3, Finite 4, Finite 5, Finite 6]"]
  by (simp add: run_640_480)

text \<open>
  C6. In every returned result the fields are read from the solved vector in the
  order [pitch, yaw, roll, \<open>t_x\<close>, \<open>t_y\<close>, frustum scale], each through
  \<^verbatim>\<open>static_cast<float>\<close>: \<open>r_x\<close> is entry 0 rounded to \<^verbatim>\<open>float\<close>, \<open>r_y\<close> entry 1,
  \<open>r_z\<close> entry 2, \<open>t_x\<close> entry 3, \<open>t_y\<close> entry 4, each rounded to \<^verbatim>\<open>float\<close>; and the
  frustum is computed from entry 5: top is entry 5 (times 1, in \<^verbatim>\<open>double\<close>)
  rounded to \<^verbatim>\<open>float\<close>, right is the \<^verbatim>\<open>double\<close> product of the aspect ratio and
  entry 5 rounded to \<^verbatim>\<open>float\<close>, bottom and left are their negations. All six
  reads are in range.
\<close>

theorem fields_read_back_in_order:
  assumes "estimate_orthographic_camera minimize ips mps w h = Inr res"
  shows "5 < length (solved minimize ips mps w h)
         \<and> r_x res = float_of_double (solved minimize ips mps w h ! 0)
         \<and> r_y res = float_of_double (solved minimize ips mps w h ! 1)
         \<and> r_z res = float_of_double (solved minimize ips mps w h ! 2)
         \<and> t_x res = float_of_double (solved minimize ips mps w h ! 3)
         \<and> t_y res = float_of_double (solved minimize ips mps w h ! 4)
         \<and> t (frustum res) =
             float_of_double (double_mul (Finite 1) (solved minimize ips mps w h ! 5))
         \<and> b (frustum res) = ieee_neg (t (frustum res))
         \<and> r (frustum res) =
             float_of_double
               (double_mul (float_mul (Finite 1) (aspect w h))
                  (solved minimize ips mps w h ! 5))
         \<and> l (frustum res) = ieee_neg (r (frustum res))"
  using result_of_Inr [OF estimate_Inr(3) [OF assms]]
    result_of_symmetric [OF estimate_Inr(3) [OF assms]]
  by simp

theorem fields_read_back_in_order_witness:
  "r_x \<lparr>r_x = Finite 1, r_y = Finite 2, r_z = Finite 3, t_x = Finite 4, t_y = Finite 5,
          frustum = \<lparr>l = Finite (- 8), r = Finite 8,
              b = Finite (- 6), t = Finite 6\<rparr>\<rparr> =
     float_of_double (solved
         (constant_solver () [Finite 1, Finite 2, Finite 3, Finite 4, Finite 5, Finite 6])
       (replicate 6 (Finite 0, Finite 0))
       (replicate 6 (Finite 0, Finite 0, Finite 0, Finite 1)) 640 480 ! 0)
   \<and> t_y \<lparr>r_x = Finite 1, r_y = Finite 2, r_z = Finite 3, t_x = Finite 4,
       t_y = Finite 5,
          frustum = \<lparr>l = Finite (- 8), r = Finite 8,
              b = Finite (- 6), t = Finite 6\<rparr>\<rparr> =
     float_of_double (solved
         (constant_solver () [Finite 1, Finite 2, Finite 3, Finite 4, Finite 5, Finite 6])
       (replicate 6 (Finite 0, Finite 0))
       (replicate 6 (Finite 0, Finite 0, Finite 0, Finite 1)) 640 480 ! 4)
   \<and> estimate_orthographic_camera
       (constant_solver () [Finite 1, Finite 2, Finite 3, Finite 4, Finite 5, Finite 6])
       (replicate 6 (Finite 0, Finite 0))
       (replicate 6 (Finite 0, Finite 0, Finite 0, Finite 1)) 640 480 =
     Inr \<lparr>r_x = Finite 1, r_y = Finite 2, r_z = Finite 3, t_x = Finite 4, t_y = Finite 5,
          frustum = \<lparr>l = Finite (- 8), r = Finite 8,
              b = Finite (- 6), t = Finite 6\<rparr>\<rparr>"
  using fields_read_back_in_order [OF run_640_480 [of "()"]] run_640_480 [of "()"]
  by simp

text \<open>
  The fields are not the entries themselves: the entry 16777217, a \<^verbatim>\<open>double\<close>,
  comes back as 16777216.
\<close>

theorem fields_read_back_in_order_counterexample:
  "estimate_orthographic_camera
       (constant_solver ()
          [Finite 16777217, Finite 0, Finite 0, Finite 0, Finite 0, Finite 1])
      
       (replicate 6 (Finite 0, Finite 0))
       (replicate 6 (Finite 0, Finite 0, Finite 0, Finite 1)) 200 200 =
     Inr \<lparr>r_x = Finite 16777216, r_y = Finite 0, r_z = Finite 0, t_x = Finite 0,
          t_y = Finite 0,
          frustum = \<lparr>l = Finite (- 1), r = Finite 1,
              b = Finite (- 1), t = Finite 1\<rparr>\<rparr>
   \<and> is_binary64 (Finite 16777217)
   \<and> r_x \<lparr>r_x = Finite 16777216, r_y = Finite 0, r_z = Finite 0, t_x = Finite 0,
          t_y = Finite 0,
          frustum = \<lparr>l = Finite (- 1), r = Finite 1,
              b = Finite (- 1), t = Finite 1\<rparr>\<rparr>
       \<noteq> solved
           (constant_solver ()
              [Finite 16777217, Finite 0, Finite 0, Finite 0, Finite 0, Finite 1])
          
       (replicate 6 (Finite 0, Finite 0))
       (replicate 6 (Finite 0, Finite 0, Finite 0, Finite 1)) 200 200 ! 0"
  by (simp add: estimate_unfolded result_of_def solved_def constant_solver_def
      aspect_200_200 ieee_eval)

text \<open>
  C10. The vector the solver works on is a vector of \<^verbatim>\<open>double\<close>, and every scalar
  of the returned result is a \<^verbatim>\<open>float\<close>, the rounding to \<^verbatim>\<open>float\<close> of a \<^verbatim>\<open>double\<close>
  value: the three angles and the two translations are the roundings of entries
  0 to 4 of the solved vector, top and bottom those of entry 5 and of its
  negation, right and left those of the \<^verbatim>\<open>double\<close> products of entry 5 with the
  aspect ratio and with its negation. (Entry 5 is a \<^verbatim>\<open>double\<close>, as every entry
  of an \<^verbatim>\<open>Eigen::VectorXd\<close> is.)
\<close>

theorem returned_fields_are_narrowed:
  assumes "estimate_orthographic_camera minimize ips mps w h = Inr res"
    and "is_binary64 (solved minimize ips mps w h ! 5)"
  shows "list_all is_binary64 initial_parameters
         \<and> r_x res = float_of_double (solved minimize ips mps w h ! 0)
         \<and> r_y res = float_of_double (solved minimize ips mps w h ! 1)
         \<and> r_z res = float_of_double (solved minimize ips mps w h ! 2)
         \<and> t_x res = float_of_double (solved minimize ips mps w h ! 3)
         \<and> t_y res = float_of_double (solved minimize ips mps w h ! 4)
         \<and> t (frustum res) = float_of_double (solved minimize ips mps w h ! 5)
         \<and> b (frustum res) = float_of_double (ieee_neg (solved minimize ips mps w h ! 5))
         \<and> r (frustum res) =
             float_of_double (double_mul (aspect w h) (solved minimize ips mps w h ! 5))
         \<and> l (frustum res) =
             float_of_double
               (double_mul (ieee_neg (aspect w h)) (solved minimize ips mps w h ! 5))
         \<and> is_binary32 (r_x res) \<and> is_binary32 (r_y res) \<and> is_binary32 (r_z res)
         \<and> is_binary32 (t_x res) \<and> is_binary32 (t_y res)
         \<and> is_binary32 (l (frustum res)) \<and> is_binary32 (r (frustum res))
         \<and> is_binary32 (b (frustum res)) \<and> is_binary32 (t (frustum res))"
proof -
  note packed = estimate_Inr(3) [OF assms(1)]
  have "list_all is_binary64 initial_parameters"
    by (simp add: initial_parameters_list ieee_eval)
  moreover note result_of_Inr(2-6) [OF packed]
  moreover from result_of_frustum [OF packed is_binary32_aspect assms(2)]
  have "frustum res =
      \<lparr>l = float_of_double
             (double_mul (ieee_neg (aspect w h)) (solved minimize ips mps w h ! 5)),
       r = float_of_double (double_mul (aspect w h) (solved minimize ips mps w h ! 5)),
       b = float_of_double (ieee_neg (solved minimize ips mps w h ! 5)),
       t = float_of_double (solved minimize ips mps w h ! 5)\<rparr>" .
  ultimately show ?thesis by (simp add: is_binary32_float_of_double)
qed

text \<open>
  An instance: the \<^verbatim>\<open>double\<close> nearest to 0.1 in entry 0 comes back as the \<^verbatim>\<open>float\<close>
  nearest to 0.1.
\<close>

lemma run_tenth:
  "estimate_orthographic_camera
       (constant_solver ()
          [Finite (3602879701896397 / 36028797018963968), Finite 0, Finite 0, Finite 0,
           Finite 0, Finite 110])
      
       (replicate 6 (Finite 0, Finite 0))
       (replicate 6 (Finite 0, Finite 0, Finite 0, Finite 1)) 640 480 =
     Inr \<lparr>r_x = Finite (13421773 / 134217728), r_y = Finite 0, r_z = Finite 0,
          t_x = Finite 0, t_y = Finite 0,
          frustum = \<lparr>l = Finite (- (9611947 / 65536)), r = Finite (9611947 / 65536),
                     b = Finite (- 110), t = Finite 110\<rparr>\<rparr>"
  by (simp add: estimate_unfolded result_of_def solved_def constant_solver_def
      aspect_640_480 ieee_eval)

theorem returned_fields_are_narrowed_witness:
  "estimate_orthographic_camera
       (constant_solver ()
          [Finite (3602879701896397 / 36028797018963968), Finite 0, Finite 0, Finite 0,
           Finite 0, Finite 110])
      
       (replicate 6 (Finite 0, Finite 0))
       (replicate 6 (Finite 0, Finite 0, Finite 0, Finite 1)) 640 480 =
     Inr \<lparr>r_x = Finite (13421773 / 134217728), r_y = Finite 0, r_z = Finite 0,
          t_x = Finite 0, t_y = Finite 0,
          frustum = \<lparr>l = Finite (- (9611947 / 65536)), r = Finite (9611947 / 65536),
                     b = Finite (- 110), t = Finite 110\<rparr>\<rparr>
   \<and> is_binary64 (Finite (3602879701896397 / 36028797018963968))
   \<and> float_of_double (Finite (3602879701896397 / 36028797018963968)) =
       Finite (13421773 / 134217728)
   \<and> is_binary32 (Finite (13421773 / 134217728))"
proof -
  have scale: "is_binary64
      (solved
         (constant_solver ()
            [Finite (3602879701896397 / 36028797018963968), Finite 0, Finite 0, Finite 0,
             Finite 0, Finite 110])
        
       (replicate 6 (Finite 0, Finite 0))
       (replicate 6 (Finite 0, Finite 0, Finite 0, Finite 1)) 640 480 ! 5)"
    by (simp add: solved_def constant_solver_def ieee_eval)
  have s0: "solved
         (constant_solver ()
            [Finite (3602879701896397 / 36028797018963968), Finite 0, Finite 0, Finite 0,
             Finite 0, Finite 110])
        
       (replicate 6 (Finite 0, Finite 0))
       (replicate 6 (Finite 0, Finite 0, Finite 0, Finite 1)) 640 480 ! 0 =
       Finite (3602879701896397 / 36028797018963968)"
    by (simp add: solved_def constant_solver_def)
  note th = returned_fields_are_narrowed [OF run_tenth scale]
  from th have "r_x \<lparr>r_x = Finite (13421773 / 134217728), r_y = Finite 0, r_z = Finite 0,
          t_x = Finite 0, t_y = Finite 0,
          frustum = \<lparr>l = Finite (- (9611947 / 65536)), r = Finite (9611947 / 65536),
                     b = Finite (- 110), t = Finite 110\<rparr>\<rparr> =
      float_of_double (Finite (3602879701896397 / 36028797018963968))"
    unfolding s0 by (elim conjE)
  then have narrowed: "float_of_double (Finite (3602879701896397 / 36028797018963968)) =
      Finite (13421773 / 134217728)"
    by (simp only: OrthographicRenderingParameters.simps)
  from th have "is_binary32 (r_x \<lparr>r_x = Finite (13421773 / 134217728), r_y = Finite 0,
          r_z = Finite 0, t_x = Finite 0, t_y = Finite 0,
          frustum = \<lparr>l = Finite (- (9611947 / 65536)), r = Finite (9611947 / 65536),
                     b = Finite (- 110), t = Finite 110\<rparr>\<rparr>)"
    by (elim conjE)
  then have float: "is_binary32 (Finite (13421773 / 134217728))"
    by (simp only: OrthographicRenderingParameters.simps)
  have double: "is_binary64 (Finite (3602879701896397 / 36028797018963968))"
    by (simp add: ieee_eval)
  from run_tenth double narrowed float show ?thesis by (intro conjI)
qed

subsection \<open>The frustum\<close>

text \<open>
  C2. For positive \<open>width\<close> and \<open>height\<close> the frustum of the returned result is
  left = \<^verbatim>\<open>float\<close>(- aspect * scale), right = \<^verbatim>\<open>float\<close>(aspect * scale),
  bottom = \<^verbatim>\<open>float\<close>(- scale), top = \<^verbatim>\<open>float\<close>(scale), where aspect is the \<^verbatim>\<open>float\<close>
  quotient of \<open>width\<close> and \<open>height\<close> converted to \<^verbatim>\<open>float\<close> (not the integer
  quotient), scale is entry 5 of the solved vector, a \<^verbatim>\<open>double\<close>, the products are
  taken in \<^verbatim>\<open>double\<close>, and \<^verbatim>\<open>float\<close>(.) rounds a \<^verbatim>\<open>double\<close> to \<^verbatim>\<open>float\<close>.
\<close>

theorem frustum_of_result:
  assumes "0 < w" and "0 < h"
    and "estimate_orthographic_camera minimize ips mps w h = Inr res"
    and "is_binary64 (solved minimize ips mps w h ! 5)"
  shows "frustum res =
           \<lparr>l = float_of_double
                  (double_mul (ieee_neg (aspect w h)) (solved minimize ips mps w h ! 5)),
            r = float_of_double
                  (double_mul (aspect w h) (solved minimize ips mps w h ! 5)),
            b = float_of_double (ieee_neg (solved minimize ips mps w h ! 5)),
            t = float_of_double (solved minimize ips mps w h ! 5)\<rparr>
         \<and> aspect w h = float_div (float_of_int w) (float_of_int h)"
  using result_of_frustum [OF estimate_Inr(3) [OF assms(3)] is_binary32_aspect assms(4)]
  by (simp add: aspect_def)

text \<open>
  An instance: a 640 by 480 image and scale 6 give right = 8, the rounding of the
  aspect ratio 11184811 / 8388608 (the \<^verbatim>\<open>float\<close> nearest to 4/3) times 6; the
  integer quotient 640 div 480 = 1 would give 6.
\<close>

theorem frustum_of_result_witness:
  "frustum \<lparr>r_x = Finite 1, r_y = Finite 2, r_z = Finite 3, t_x = Finite 4, t_y = Finite 5,
          frustum = \<lparr>l = Finite (- 8), r = Finite 8,
              b = Finite (- 6), t = Finite 6\<rparr>\<rparr> =
     \<lparr>l = float_of_double (double_mul (ieee_neg (Finite (11184811 / 8388608))) (Finite 6)),
      r = float_of_double (double_mul (Finite (11184811 / 8388608)) (Finite 6)),
      b = float_of_double (ieee_neg (Finite 6)),
      t = float_of_double (Finite 6)\<rparr>
   \<and> estimate_orthographic_camera
       (constant_solver () [Finite 1, Finite 2, Finite 3, Finite 4, Finite 5, Finite 6])
       (replicate 6 (Finite 0, Finite 0))
       (replicate 6 (Finite 0, Finite 0, Finite 0, Finite 1)) 640 480 =
     Inr \<lparr>r_x = Finite 1, r_y = Finite 2, r_z = Finite 3, t_x = Finite 4, t_y = Finite 5,
          frustum = \<lparr>l = Finite (- 8), r = Finite 8,
              b = Finite (- 6), t = Finite 6\<rparr>\<rparr>"
proof -
  have pos: "(0::int) < 640" "(0::int) < 480" by simp_all
  have scale: "is_binary64 (solved
      (constant_solver () [Finite 1, Finite 2, Finite 3, Finite 4, Finite 5, Finite 6])
       (replicate 6 (Finite 0, Finite 0))
       (replicate 6 (Finite 0, Finite 0, Finite 0, Finite 1)) 640 480 ! 5)"
    by (simp add: solved_def constant_solver_def ieee_eval)
  have s5: "solved (constant_solver () [Finite 1, Finite 2, Finite 3, Finite 4, Finite 5, Finite 6])
       (replicate 6 (Finite 0, Finite 0))
       (replicate 6 (Finite 0, Finite 0, Finite 0, Finite 1)) 640 480 ! 5 = Finite 6"
    by (simp add: solved_def constant_solver_def)
  note th = frustum_of_result [OF pos run_640_480 [of "()"] scale,
      unfolded s5 aspect_640_480, THEN conjunct1]
  from th run_640_480 [of "()"] show ?thesis by (intro conjI)
qed

text \<open>
  The frustum is not the exact one: for a 640 by 480 image and scale 110 the
  function returns right = 9611947 / 65536, which is not 640 / 480 * 110 = 440 / 3.
\<close>

theorem frustum_of_result_counterexample:
  "estimate_orthographic_camera
       (constant_solver () [Finite 0, Finite 0, Finite 0, Finite 0, Finite 0, Finite 110])
      
       (replicate 6 (Finite 0, Finite 0))
       (replicate 6 (Finite 0, Finite 0, Finite 0, Finite 1)) 640 480 =
     Inr \<lparr>r_x = Finite 0, r_y = Finite 0, r_z = Finite 0, t_x = Finite 0, t_y = Finite 0,
          frustum = \<lparr>l = Finite (- (9611947 / 65536)), r = Finite (9611947 / 65536),
                     b = Finite (- 110), t = Finite 110\<rparr>\<rparr>
   \<and> is_binary64 (Finite 110)
   \<and> r \<lparr>l = Finite (- (9611947 / 65536)), r = Finite (9611947 / 65536),
          b = Finite (- 110), t = Finite 110\<rparr>
       \<noteq> Finite (real_of_int 640 / real_of_int 480 * 110)"
  by (simp add: run_640_480_scale_110, simp add: ieee_eval)

text \<open>
  C7. Two calls whose solved vectors have the same frustum scale, on images of the
  same aspect ratio (\<open>w1 / h1 = w2 / h2\<close>, stated as \<open>w1 * h2 = w2 * h1\<close> for
  non-zero heights) and with widths and heights of magnitude at most
  \<open>2^24 = 16777216\<close>, which convert to \<^verbatim>\<open>float\<close> exactly, return the same frustum:
  for such images the size enters the frustum through the aspect ratio only.
\<close>

theorem frustum_depends_on_aspect_only:
  fixes m1 :: "'a minimize" and m2 :: "'b minimize"
  assumes "estimate_orthographic_camera m1 ips1 mps1 w1 h1 = Inr res1"
    and "estimate_orthographic_camera m2 ips2 mps2 w2 h2 = Inr res2"
    and "solved m1 ips1 mps1 w1 h1 ! 5 = solved m2 ips2 mps2 w2 h2 ! 5"
    and "h1 \<noteq> 0" and "h2 \<noteq> 0" and "w1 * h2 = w2 * h1"
    and "\<bar>w1\<bar> \<le> 2 ^ 24" and "\<bar>h1\<bar> \<le> 2 ^ 24"
    and "\<bar>w2\<bar> \<le> 2 ^ 24" and "\<bar>h2\<bar> \<le> 2 ^ 24"
  shows "frustum res1 = frustum res2"
proof -
  have "real_of_int w1 * real_of_int h2 = real_of_int w2 * real_of_int h1"
    using assms(6) by (metis of_int_mult)
  with assms(4,5) have "real_of_int w1 / real_of_int h1 = real_of_int w2 / real_of_int h2"
    by (simp add: frac_eq_eq)
  with assms(4,5) have a: "aspect w1 h1 = aspect w2 h2"
    by (simp add: aspect_def float_of_int_exact [OF assms(7)] float_of_int_exact [OF assms(8)]
        float_of_int_exact [OF assms(9)] float_of_int_exact [OF assms(10)])
  note r1 = result_of_Inr(7-10) [OF estimate_Inr(3) [OF assms(1)]]
  note r2 = result_of_Inr(7-10) [OF estimate_Inr(3) [OF assms(2)]]
  from r1 r2 have "l (frustum res1) = l (frustum res2)" "r (frustum res1) = r (frustum res2)"
    "b (frustum res1) = b (frustum res2)" "t (frustum res1) = t (frustum res2)"
    by (simp_all only: a assms(3))
  then show ?thesis by (cases "frustum res1"; cases "frustum res2") simp
qed

text \<open>An instance: a 640 by 480 and a 1280 by 960 image, both with scale 6.\<close>

lemma run_1280_960:
  "estimate_orthographic_camera
       (constant_solver () [Finite 0, Finite 0, Finite 0, Finite 7, Finite 9, Finite 6])
      
       (replicate 8 (Finite 1, Finite 1))
       (replicate 8 (Finite 1, Finite 1, Finite 1, Finite 1))
       1280 960 =
     Inr \<lparr>r_x = Finite 0, r_y = Finite 0, r_z = Finite 0, t_x = Finite 7, t_y = Finite 9,
          frustum = \<lparr>l = Finite (- 8), r = Finite 8,
              b = Finite (- 6), t = Finite 6\<rparr>\<rparr>"
  by (simp add: estimate_unfolded result_of_def solved_def constant_solver_def ieee_eval)

theorem frustum_depends_on_aspect_only_witness:
  "estimate_orthographic_camera
       (constant_solver () [Finite 1, Finite 2, Finite 3, Finite 4, Finite 5, Finite 6])
      
       (replicate 6 (Finite 0, Finite 0))
       (replicate 6 (Finite 0, Finite 0, Finite 0, Finite 1)) 640 480 =
     Inr \<lparr>r_x = Finite 1, r_y = Finite 2, r_z = Finite 3, t_x = Finite 4, t_y = Finite 5,
          frustum = \<lparr>l = Finite (- 8), r = Finite 8,
              b = Finite (- 6), t = Finite 6\<rparr>\<rparr>
   \<and> estimate_orthographic_camera
       (constant_solver () [Finite 0, Finite 0, Finite 0, Finite 7, Finite 9, Finite 6])
      
       (replicate 8 (Finite 1, Finite 1))
       (replicate 8 (Finite 1, Finite 1, Finite 1, Finite 1))
       1280 960 =
     Inr \<lparr>r_x = Finite 0, r_y = Finite 0, r_z = Finite 0, t_x = Finite 7, t_y = Finite 9,
          frustum = \<lparr>l = Finite (- 8), r = Finite 8,
              b = Finite (- 6), t = Finite 6\<rparr>\<rparr>
   \<and> frustum \<lparr>r_x = Finite 1, r_y = Finite 2, r_z = Finite 3, t_x = Finite 4,
          t_y = Finite 5,
          frustum = \<lparr>l = Finite (- 8), r = Finite 8,
              b = Finite (- 6), t = Finite 6\<rparr>\<rparr> =
     frustum \<lparr>r_x = Finite 0, r_y = Finite 0, r_z = Finite 0, t_x = Finite 7,
          t_y = Finite 9,
          frustum = \<lparr>l = Finite (- 8), r = Finite 8,
              b = Finite (- 6), t = Finite 6\<rparr>\<rparr>"
proof -
  have scale: "solved
         (constant_solver () [Finite 1, Finite 2, Finite 3, Finite 4, Finite 5, Finite 6])
        
       (replicate 6 (Finite 0, Finite 0))
       (replicate 6 (Finite 0, Finite 0, Finite 0, Finite 1)) 640 480 ! 5 =
       solved
         (constant_solver () [Finite 0, Finite 0, Finite 0, Finite 7, Finite 9, Finite 6])
         (replicate 8 (Finite 1, Finite 1))
         (replicate 8 (Finite 1, Finite 1, Finite 1, Finite 1)) 1280 960 ! 5"
    by (simp add: solved_def constant_solver_def)
  have dims: "(480::int) \<noteq> 0" "(960::int) \<noteq> 0" "(640::int) * 960 = 1280 * 480"
    "\<bar>640::int\<bar> \<le> 2 ^ 24" "\<bar>480::int\<bar> \<le> 2 ^ 24"
    "\<bar>1280::int\<bar> \<le> 2 ^ 24" "\<bar>960::int\<bar> \<le> 2 ^ 24"
    by simp_all
  from frustum_depends_on_aspect_only [OF run_640_480 [of "()"] run_1280_960 scale dims]
    run_640_480 [of "()"] run_1280_960
  show ?thesis by (intro conjI)
qed

text \<open>
  Beyond \<open>2^24\<close> the conversion to \<^verbatim>\<open>float\<close> rounds, and the aspect ratio alone no
  longer decides: 3 by 1 and 50331651 by 16777217 have the same ratio, but with
  scale 1 the second image gets right = 12582913 / 4194304 instead of 3.
\<close>

theorem frustum_depends_on_aspect_only_counterexample:
  "estimate_orthographic_camera
      (constant_solver () [Finite 0, Finite 0, Finite 0, Finite 0, Finite 0, Finite 1])
       (replicate 6 (Finite 0, Finite 0))
       (replicate 6 (Finite 0, Finite 0, Finite 0, Finite 1)) 3 1 =
     Inr \<lparr>r_x = Finite 0, r_y = Finite 0, r_z = Finite 0, t_x = Finite 0, t_y = Finite 0,
          frustum = \<lparr>l = Finite (- 3), r = Finite 3,
              b = Finite (- 1), t = Finite 1\<rparr>\<rparr>
   \<and> estimate_orthographic_camera
       (constant_solver () [Finite 0, Finite 0, Finite 0, Finite 0, Finite 0, Finite 1])
       (replicate 6 (Finite 0, Finite 0))
       (replicate 6 (Finite 0, Finite 0, Finite 0, Finite 1)) 50331651 16777217 =
     Inr \<lparr>r_x = Finite 0, r_y = Finite 0, r_z = Finite 0, t_x = Finite 0, t_y = Finite 0,
          frustum = \<lparr>l = Finite (- (12582913 / 4194304)), r = Finite (12582913 / 4194304),
              b = Finite (- 1), t = Finite 1\<rparr>\<rparr>
   \<and> (3::int) * 16777217 = 50331651 * 1
   \<and> frustum \<lparr>r_x = Finite 0, r_y = Finite 0, r_z = Finite 0, t_x = Finite 0,
       t_y = Finite 0,
          frustum = \<lparr>l = Finite (- 3), r = Finite 3,
              b = Finite (- 1), t = Finite 1\<rparr>\<rparr>
       \<noteq> frustum \<lparr>r_x = Finite 0, r_y = Finite 0, r_z = Finite 0, t_x = Finite 0,
           t_y = Finite 0,
          frustum = \<lparr>l = Finite (- (12582913 / 4194304)), r = Finite (12582913 / 4194304),
              b = Finite (- 1), t = Finite 1\<rparr>\<rparr>"
  by (simp add: estimate_unfolded result_of_def solved_def constant_solver_def ieee_eval)

text \<open>
  C9. In every returned result left is the negation of right and bottom the
  negation of top (the negation of NaN being NaN). Top is the rounding to
  \<^verbatim>\<open>float\<close> of the solved frustum scale and right the rounding of the \<^verbatim>\<open>double\<close> product of the aspect ratio (the
  \<^verbatim>\<open>float\<close> quotient of \<open>width\<close> and \<open>height\<close>) and the scale, so right is
  aspect times top up to rounding. For a negative solved scale top is at most
  zero, and bottom > top unless top is zero (a scale too small for a \<^verbatim>\<open>float\<close>);
  with a positive aspect ratio, which \<open>width\<close> and \<open>height\<close> of the same sign
  have, right is then at most zero, and left > right unless right is zero. The
  solver's status plays no part.
\<close>

theorem frustum_symmetry:
  assumes "estimate_orthographic_camera minimize ips mps w h = Inr res"
  shows "l (frustum res) = ieee_neg (r (frustum res))
         \<and> b (frustum res) = ieee_neg (t (frustum res))
         \<and> (is_binary64 (solved minimize ips mps w h ! 5) \<longrightarrow>
              t (frustum res) = float_of_double (solved minimize ips mps w h ! 5)
              \<and> r (frustum res) =
                  float_of_double
                    (double_mul (aspect w h) (solved minimize ips mps w h ! 5)))
         \<and> (ieee_less (solved minimize ips mps w h ! 5) (Finite 0) \<longrightarrow>
              ieee_less_eq (t (frustum res)) (Finite 0)
              \<and> (t (frustum res) \<noteq> Finite 0 \<longrightarrow>
                   ieee_less (t (frustum res)) (b (frustum res))))
         \<and> (ieee_less (solved minimize ips mps w h ! 5) (Finite 0)
              \<and> ieee_less (Finite 0) (aspect w h) \<longrightarrow>
              ieee_less_eq (r (frustum res)) (Finite 0)
              \<and> (r (frustum res) \<noteq> Finite 0 \<longrightarrow>
                   ieee_less (r (frustum res)) (l (frustum res))))
         \<and> ((0 < w \<and> 0 < h \<or> w < 0 \<and> h < 0) \<and> \<bar>w\<bar> \<le> 2 ^ 31 \<and> \<bar>h\<bar> \<le> 2 ^ 31 \<longrightarrow>
              ieee_less (Finite 0) (aspect w h))"
proof -
  let ?s = "solved minimize ips mps w h ! 5"
  note packed = estimate_Inr(3) [OF assms]
  note sym = result_of_symmetric [OF packed]
  note raw = result_of_Inr(7-10) [OF packed]
  have exact: "t (frustum res) = float_of_double ?s
      \<and> r (frustum res) = float_of_double (double_mul (aspect w h) ?s)"
    if "is_binary64 ?s"
    using result_of_frustum [OF packed is_binary32_aspect that] by simp
  have top: "ieee_less_eq (t (frustum res)) (Finite 0)" if "ieee_less ?s (Finite 0)"
    unfolding raw(4) by (intro float_of_double_nonpos double_mul_one_nonpos that)
  have right: "ieee_less_eq (r (frustum res)) (Finite 0)"
    if "ieee_less ?s (Finite 0)" "ieee_less (Finite 0) (aspect w h)"
    unfolding raw(2) float_mul_one [OF is_binary32_aspect]
    by (intro float_of_double_nonpos double_mul_pos_neg that)
  have tb: "ieee_less (t (frustum res)) (b (frustum res))"
    if "ieee_less_eq (t (frustum res)) (Finite 0)" "t (frustum res) \<noteq> Finite 0"
    unfolding sym(2) by (intro nonpos_less_neg that)
  have rl: "ieee_less (r (frustum res)) (l (frustum res))"
    if "ieee_less_eq (r (frustum res)) (Finite 0)" "r (frustum res) \<noteq> Finite 0"
    unfolding sym(1) by (intro nonpos_less_neg that)
  from sym exact top right tb rl aspect_positive [of w h] show ?thesis by blast
qed

text \<open>An instance: a 640 by 480 image and the solved scale - 6.\<close>

lemma run_640_480_negative:
  "estimate_orthographic_camera
      (constant_solver () [Finite 0, Finite 0, Finite 0, Finite 0, Finite 0, Finite (- 6)])
       (replicate 6 (Finite 0, Finite 0))
       (replicate 6 (Finite 0, Finite 0, Finite 0, Finite 1)) 640 480 =
     Inr \<lparr>r_x = Finite 0, r_y = Finite 0, r_z = Finite 0, t_x = Finite 0, t_y = Finite 0,
          frustum = \<lparr>l = Finite 8, r = Finite (- 8),
              b = Finite 6, t = Finite (- 6)\<rparr>\<rparr>"
  by (simp add: estimate_unfolded result_of_def solved_def constant_solver_def
      aspect_640_480 ieee_eval)

theorem frustum_symmetry_witness:
  "estimate_orthographic_camera
      (constant_solver () [Finite 0, Finite 0, Finite 0, Finite 0, Finite 0, Finite (- 6)])
       (replicate 6 (Finite 0, Finite 0))
       (replicate 6 (Finite 0, Finite 0, Finite 0, Finite 1)) 640 480 =
     Inr \<lparr>r_x = Finite 0, r_y = Finite 0, r_z = Finite 0, t_x = Finite 0, t_y = Finite 0,
          frustum = \<lparr>l = Finite 8, r = Finite (- 8),
              b = Finite 6, t = Finite (- 6)\<rparr>\<rparr>
   \<and> ieee_less (Finite (- 6)) (Finite 0)
   \<and> ieee_less (Finite 0) (aspect 640 480)
   \<and> ieee_less (t (frustum \<lparr>r_x = Finite 0, r_y = Finite 0, r_z = Finite 0, t_x = Finite 0,
       t_y = Finite 0,
          frustum = \<lparr>l = Finite 8, r = Finite (- 8),
              b = Finite 6, t = Finite (- 6)\<rparr>\<rparr>))
       (b (frustum \<lparr>r_x = Finite 0, r_y = Finite 0, r_z = Finite 0, t_x = Finite 0,
           t_y = Finite 0,
          frustum = \<lparr>l = Finite 8, r = Finite (- 8),
              b = Finite 6, t = Finite (- 6)\<rparr>\<rparr>))
   \<and> ieee_less (r (frustum \<lparr>r_x = Finite 0, r_y = Finite 0, r_z = Finite 0, t_x = Finite 0,
       t_y = Finite 0,
          frustum = \<lparr>l = Finite 8, r = Finite (- 8),
              b = Finite 6, t = Finite (- 6)\<rparr>\<rparr>))
       (l (frustum \<lparr>r_x = Finite 0, r_y = Finite 0, r_z = Finite 0, t_x = Finite 0,
           t_y = Finite 0,
          frustum = \<lparr>l = Finite 8, r = Finite (- 8),
              b = Finite 6, t = Finite (- 6)\<rparr>\<rparr>))"
proof -
  have s5: "solved (constant_solver ()
      [Finite 0, Finite 0, Finite 0, Finite 0, Finite 0, Finite (- 6)])
       (replicate 6 (Finite 0, Finite 0))
       (replicate 6 (Finite 0, Finite 0, Finite 0, Finite 1)) 640 480 ! 5 = Finite (- 6)"
    by (simp add: solved_def constant_solver_def)
  note th = frustum_symmetry [OF run_640_480_negative, unfolded s5]
  have neg: "ieee_less (Finite (- 6)) (Finite 0)" by simp
  have dims: "(0 < (640::int) \<and> 0 < (480::int) \<or> (640::int) < 0 \<and> (480::int) < 0)
      \<and> \<bar>640::int\<bar> \<le> 2 ^ 31 \<and> \<bar>480::int\<bar> \<le> 2 ^ 31" by simp
  from th dims have pos: "ieee_less (Finite 0) (aspect 640 480)" by blast
  have t0: "t (frustum \<lparr>r_x = Finite 0, r_y = Finite 0, r_z = Finite 0, t_x = Finite 0,
      t_y = Finite 0,
          frustum = \<lparr>l = Finite 8, r = Finite (- 8),
              b = Finite 6, t = Finite (- 6)\<rparr>\<rparr>) \<noteq> Finite 0"
    and r0: "r (frustum \<lparr>r_x = Finite 0, r_y = Finite 0, r_z = Finite 0, t_x = Finite 0,
        t_y = Finite 0,
          frustum = \<lparr>l = Finite 8, r = Finite (- 8),
              b = Finite 6, t = Finite (- 6)\<rparr>\<rparr>) \<noteq> Finite 0" by simp_all
  from th neg t0 have tb: "ieee_less (t (frustum \<lparr>r_x = Finite 0, r_y = Finite 0, r_z = Finite 0, t_x = Finite 0,
      t_y = Finite 0,
          frustum = \<lparr>l = Finite 8, r = Finite (- 8),
              b = Finite 6, t = Finite (- 6)\<rparr>\<rparr>))
       (b (frustum \<lparr>r_x = Finite 0, r_y = Finite 0, r_z = Finite 0, t_x = Finite 0,
           t_y = Finite 0,
          frustum = \<lparr>l = Finite 8, r = Finite (- 8),
              b = Finite 6, t = Finite (- 6)\<rparr>\<rparr>))" by blast
  from th neg pos r0 have rl: "ieee_less (r (frustum \<lparr>r_x = Finite 0, r_y = Finite 0, r_z = Finite 0, t_x = Finite 0,
      t_y = Finite 0,
          frustum = \<lparr>l = Finite 8, r = Finite (- 8),
              b = Finite 6, t = Finite (- 6)\<rparr>\<rparr>))
       (l (frustum \<lparr>r_x = Finite 0, r_y = Finite 0, r_z = Finite 0, t_x = Finite 0,
           t_y = Finite 0,
          frustum = \<lparr>l = Finite 8, r = Finite (- 8),
              b = Finite 6, t = Finite (- 6)\<rparr>\<rparr>))" by blast
  from run_640_480_negative neg pos tb rl show ?thesis by (intro conjI)
qed

text \<open>
  Without the provisos the statement fails for positive image sizes. For a 640 by
  480 image and the solved scale \<open>- 2^-200\<close>, a negative \<^verbatim>\<open>double\<close>, all four
  bounds are zero, so neither left > right nor bottom > top. For the solved scale
  16777217 top is 16777216 and right is 22369624, which is neither
  640 / 480 * 16777216 nor the \<^verbatim>\<open>float\<close> product of the aspect ratio and top.
\<close>

theorem frustum_symmetry_counterexample:
  "estimate_orthographic_camera
      (constant_solver ()
      [Finite 0, Finite 0, Finite 0, Finite 0, Finite 0, Finite (- (1 / 2 ^ 200))])
       (replicate 6 (Finite 0, Finite 0))
       (replicate 6 (Finite 0, Finite 0, Finite 0, Finite 1)) 640 480 =
     Inr \<lparr>r_x = Finite 0, r_y = Finite 0, r_z = Finite 0, t_x = Finite 0, t_y = Finite 0,
          frustum = \<lparr>l = Finite 0, r = Finite 0, b = Finite 0, t = Finite 0\<rparr>\<rparr>
   \<and> is_binary64 (Finite (- (1 / 2 ^ 200)))
   \<and> ieee_less
       (solved (constant_solver ()
           [Finite 0, Finite 0, Finite 0, Finite 0, Finite 0, Finite (- (1 / 2 ^ 200))])
       (replicate 6 (Finite 0, Finite 0))
       (replicate 6 (Finite 0, Finite 0, Finite 0, Finite 1)) 640 480 ! 5) (Finite 0)
   \<and> \<not> ieee_less (t (frustum \<lparr>r_x = Finite 0, r_y = Finite 0, r_z = Finite 0, t_x = Finite 0,
       t_y = Finite 0,
          frustum = \<lparr>l = Finite 0, r = Finite 0, b = Finite 0, t = Finite 0\<rparr>\<rparr>))
         (b (frustum \<lparr>r_x = Finite 0, r_y = Finite 0, r_z = Finite 0, t_x = Finite 0,
             t_y = Finite 0,
          frustum = \<lparr>l = Finite 0, r = Finite 0, b = Finite 0, t = Finite 0\<rparr>\<rparr>))
   \<and> \<not> ieee_less (r (frustum \<lparr>r_x = Finite 0, r_y = Finite 0, r_z = Finite 0, t_x = Finite 0,
       t_y = Finite 0,
          frustum = \<lparr>l = Finite 0, r = Finite 0, b = Finite 0, t = Finite 0\<rparr>\<rparr>))
         (l (frustum \<lparr>r_x = Finite 0, r_y = Finite 0, r_z = Finite 0, t_x = Finite 0,
             t_y = Finite 0,
          frustum = \<lparr>l = Finite 0, r = Finite 0, b = Finite 0, t = Finite 0\<rparr>\<rparr>))
   \<and> estimate_orthographic_camera
       (constant_solver () [Finite 0, Finite 0, Finite 0, Finite 0, Finite 0, Finite 16777217])
       (replicate 6 (Finite 0, Finite 0))
       (replicate 6 (Finite 0, Finite 0, Finite 0, Finite 1)) 640 480 =
     Inr \<lparr>r_x = Finite 0, r_y = Finite 0, r_z = Finite 0, t_x = Finite 0, t_y = Finite 0,
          frustum = \<lparr>l = Finite (- 22369624), r = Finite 22369624,
              b = Finite (- 16777216), t = Finite 16777216\<rparr>\<rparr>
   \<and> is_binary64 (Finite 16777217)
   \<and> r (frustum \<lparr>r_x = Finite 0, r_y = Finite 0, r_z = Finite 0, t_x = Finite 0,
       t_y = Finite 0,
          frustum = \<lparr>l = Finite (- 22369624), r = Finite 22369624,
              b = Finite (- 16777216), t = Finite 16777216\<rparr>\<rparr>)
       \<noteq> Finite (real_of_int 640 / real_of_int 480 * 16777216)
   \<and> r (frustum \<lparr>r_x = Finite 0, r_y = Finite 0, r_z = Finite 0, t_x = Finite 0,
       t_y = Finite 0,
          frustum = \<lparr>l = Finite (- 22369624), r = Finite 22369624,
              b = Finite (- 16777216), t = Finite 16777216\<rparr>\<rparr>)
       \<noteq> float_mul (aspect 640 480) (t (frustum \<lparr>r_x = Finite 0, r_y = Finite 0, r_z = Finite 0, t_x = Finite 0,
           t_y = Finite 0,
          frustum = \<lparr>l = Finite (- 22369624), r = Finite 22369624,
              b = Finite (- 16777216), t = Finite 16777216\<rparr>\<rparr>))"
  by (simp add: estimate_unfolded result_of_def solved_def constant_solver_def
      aspect_640_480, simp add: ieee_eval)

subsection \<open>The rotation order\<close>

text \<open>
  C5. The rotation of the forward projection is the matrix product R P Y applied
  to the vertex: the yaw rotation acts on the vertex first, then the pitch
  rotation, then the roll rotation. The angles are in radians: a yaw and a pitch
  of \<open>\<pi> / 2\<close> each take the point (1, 0, 0) first to (0, 0, - 1) and then to
  (0, 1, 0), whereas pitch before yaw would leave it at (0, 0, - 1).
\<close>

theorem rotation_order:
  "rotate_vertex [pitch, yaw, roll, tx, ty, scale] v =
     mat_vec (rot_mtx_z roll) (mat_vec (rot_mtx_x pitch) (mat_vec (rot_mtx_y yaw) v))
   \<and> rotate_vertex [pi / 2, pi / 2, 0, 0, 0, 110] (1, 0, 0) = (0, 1, 0)
   \<and> mat_vec (rot_mtx_y (pi / 2)) (mat_vec (rot_mtx_x (pi / 2)) (1, 0, 0)) = (0, 0, - 1)"
proof -
  have order: "mat_vec (rotation p y r') u =
      mat_vec (rot_mtx_z r') (mat_vec (rot_mtx_x p) (mat_vec (rot_mtx_y y) u))"
    for p y r' u
    unfolding rotation_def by (simp only: mat_vec_mat_mul)
  have general: "rotate_vertex [pitch, yaw, roll, tx, ty, scale] v =
      mat_vec (rot_mtx_z roll) (mat_vec (rot_mtx_x pitch) (mat_vec (rot_mtx_y yaw) v))"
    unfolding rotate_vertex_def by (simp add: order)
  have yaw_first: "rotate_vertex [pi / 2, pi / 2, 0, 0, 0, 110] (1, 0, 0) = (0, 1, 0)"
    unfolding rotate_vertex_def
    by (simp add: order rot_mtx_x_def rot_mtx_y_def rot_mtx_z_def)
  have pitch_first:
    "mat_vec (rot_mtx_y (pi / 2)) (mat_vec (rot_mtx_x (pi / 2)) (1, 0, 0)) = (0, 0, - 1)"
    by (simp add: rot_mtx_x_def rot_mtx_y_def)
  from general yaw_first pitch_first show ?thesis by blast
qed

end
